theory Spec2Isabelle
  imports Main
begin

section \<open>JavaScript values and string helpers\<close>

text \<open>
  Strings are lists of code units (\<^typ>\<open>string\<close>), \<open>s.length\<close> is \<^const>\<open>length\<close>.
  A thrown value is either an \<open>Error\<close> instance with its \<open>message\<close>, or any other
  value, kept as its \<open>String(value)\<close> rendering.
\<close>

datatype thrown = Error string | Thrown string


definition startsWith :: "string \<Rightarrow> string \<Rightarrow> bool" where
  "startsWith s p \<longleftrightarrow> take (length p) s = p"

text \<open>\<open>s.split(c)\<close> for a one-character separator: never the empty array.\<close>

fun split_on :: "char \<Rightarrow> string \<Rightarrow> string list" where
  "split_on c [] = [[]]"
| "split_on c (x # xs) =
     (if x = c then [] # split_on c xs
      else (case split_on c xs of [] \<Rightarrow> [[x]] | y # ys \<Rightarrow> (x # y) # ys))"



definition toLowerCase :: "string \<Rightarrow> string" where
  "toLowerCase s =
     map (\<lambda>c. if 65 \<le> (of_char c :: nat) \<and> (of_char c :: nat) \<le> 90
               then char_of ((of_char c :: nat) + 32) else c) s"

text \<open>The regular expression \<open>/^[a-z0-9]+$/\<close>.\<close>

definition isLowerAlnum :: "char \<Rightarrow> bool" where
  "isLowerAlnum c \<longleftrightarrow>
     (97 \<le> (of_char c :: nat) \<and> (of_char c :: nat) \<le> 122) \<or>
     (48 \<le> (of_char c :: nat) \<and> (of_char c :: nat) \<le> 57)"

definition matchesLowerAlnum :: "string \<Rightarrow> bool" where
  "matchesLowerAlnum s \<longleftrightarrow> s \<noteq> [] \<and> list_all isLowerAlnum s"

text \<open>\<open>s.lastIndexOf(c)\<close>: the last position of \<open>c\<close>, or \<open>-1\<close>.\<close>

definition lastIndexOf :: "string \<Rightarrow> char \<Rightarrow> int" where
  "lastIndexOf s c =
     (if c \<in> set s then int (length s) - 1 - int (length (takeWhile (\<lambda>x. x \<noteq> c) (rev s)))
      else - 1)"

text \<open>\<open>s.substring(i)\<close> for \<open>i \<ge> 0\<close>.\<close>

definition substring :: "string \<Rightarrow> int \<Rightarrow> string" where
  "substring s i = drop (nat i) s"

text \<open>Array indexing \<open>xs[i]\<close>: \<open>undefined\<close> out of range.\<close>

definition js_index :: "'a list \<Rightarrow> nat \<Rightarrow> 'a option" where
  "js_index xs i = (if i < length xs then Some (xs ! i) else None)"

text \<open>Decimal rendering of a number in a template literal.\<close>

fun show_nat :: "nat \<Rightarrow> string" where
  "show_nat n =
     (if n < 10 then [char_of (48 + n)]
      else show_nat (n div 10) @ [char_of (48 + n mod 10)])"

declare show_nat.simps [simp del]

text \<open>\<open>x || d\<close> on an optional string: \<open>undefined\<close> and \<open>''\<close> are falsy.\<close>

fun orElse :: "string option \<Rightarrow> string \<Rightarrow> string" where
  "orElse None d = d"
| "orElse (Some s) d = (if s = [] then d else s)"

section \<open>Data model\<close>

text \<open>
  One entry of a draft's \<open>image_urls\<close>: the extractor's output is untyped at run time
  (\<open>properties: any[]\<close>), and the code tests \<open>typeof imgUrl !== 'string'\<close>.
\<close>

datatype candidate = Str string | NotString

text \<open>
  The draft record \<open>p\<close> the extractor returns (\<open>ExtractedPropertySchema\<close>): every field is
  optional. The fields the pipeline reads are named; \<open>others\<close> holds the remaining
  schema fields, which the spread \<open>...p\<close> carries along untouched.
\<close>

record draft =
  page_link :: "string option"
  original_title :: "string option"
  original_description :: "string option"
  title :: "string option"
  description :: "string option"
  image_urls :: "candidate list option"
  propertyCountry :: "string option"
  propertyAgent :: "string option"
  others :: "(string \<times> string) list"

text \<open>
  The finalized \<open>Property\<close>: \<open>spread\<close> is \<open>...p\<close>, the other fields are the overrides
  that \<open>processScrapedData\<close> writes after it.
\<close>

record property =
  spread :: draft
  id :: string
  original_url :: string
  original_title :: string
  original_description :: string
  title :: string
  description :: string
  scraped_at :: string
  image_urls :: "string list"
  image_url :: "string option"
  propertyCountry :: string
  propertyAgent :: string

datatype job_type = URL | HTML | BULK

record history_entry =
  type :: job_type
  details :: string
  propertyCount :: nat

text \<open>\<open>BulkScrapeError\<close>, fields \<open>url\<close> and \<open>error\<close>.\<close>

record bulk_scrape_error =
  error_url :: string
  error_text :: string

record scrape_bulk_result =
  properties :: "property list"
  errors :: "bulk_scrape_error list"

section \<open>The platform\<close>

text \<open>What \<open>new URL(input, base)\<close> yields: the fields the code reads.\<close>

record parsed_url =
  href :: string
  protocol :: string
  pathname :: string

text \<open>
  A \<open>fetch\<close> response: \<open>content_type\<close> is \<open>headers.get('content-type')\<close>
  (\<open>null\<close> when the header is missing), \<open>responseText\<close> and \<open>arrayBuffer\<close> are the
  results of reading the body, which may reject.
\<close>

record response =
  ok :: bool
  status :: nat
  statusText :: string
  content_type :: "string option"
  responseText :: "thrown + string"
  arrayBuffer :: "thrown + string"

text \<open>Requests the pipeline sends to the outside: network, file system, AI service.\<close>

datatype request =
    Fetch string "(string \<times> string) list"
  | Mkdir string
  | WriteFile string string
  | ExtractPrompt string
  | EnhancePrompt string string

text \<open>
  The state the pipeline changes: the history log (written by \<open>saveHistoryEntry\<close>) and
  the requests sent so far, oldest first.
\<close>

record world =
  history :: "history_entry list"
  requests :: "request list"

text \<open>
  Everything the code calls but does not define. \<open>new_URL\<close> is the WHATWG URL constructor
  (\<open>Inl\<close> is its \<open>TypeError\<close>); it is a pure function. The other answers may depend on
  all that happened before, so they read the world. Every one is a total function:
  each awaited call settles.
\<close>

record platform =
  new_URL :: "string \<Rightarrow> string option \<Rightarrow> thrown + parsed_url"
  fetch :: "world \<Rightarrow> string \<Rightarrow> (string \<times> string) list \<Rightarrow> thrown + response"
  Date_now :: "world \<Rightarrow> nat"
  toISOString :: "world \<Rightarrow> string"
  cwd :: string
  path_join :: "string list \<Rightarrow> string"
  fs_mkdir :: "world \<Rightarrow> string \<Rightarrow> thrown + unit"
  fs_writeFile :: "world \<Rightarrow> string \<Rightarrow> string \<Rightarrow> thrown + unit"
  extract_prompt :: "world \<Rightarrow> string \<Rightarrow> thrown + draft list option"
  enhance_prompt :: "world \<Rightarrow> string \<Rightarrow> string \<Rightarrow> thrown + string \<times> string"

definition issue :: "request \<Rightarrow> world \<Rightarrow> world" where
  "issue r w = w\<lparr>requests := requests w @ [r]\<rparr>"

section \<open>Fetching a page\<close>

definition page_headers :: "(string \<times> string) list" where
  "page_headers =
     [(''User-Agent'', ''Mozilla/5.0 (Windows NT 10.0; Win64; x64) AppleWebKit/537.36 (KHTML, like Gecko) Chrome/91.0.4472.124 Safari/537.36''),
      (''Accept'', ''text/html,application/xhtml+xml,application/xml;q=0.9,image/webp,image/apng,*/*;q=0.8''),
      (''Accept-Language'', ''en-US,en;q=0.9''),
      (''Connection'', ''keep-alive'')]"

text \<open>
  \<open>getHtml\<close>: the \<open>try\<close> block gives the body or what was thrown; the \<open>catch\<close> block
  rethrows its own \<open>Failed to fetch URL\<close> error and wraps every other one.
\<close>

definition getHtml :: "platform \<Rightarrow> string \<Rightarrow> world \<Rightarrow> (thrown + string) \<times> world" where
  "getHtml P url w =
     (let w1 = issue (Fetch url page_headers) w;
          tried =
            (case fetch P w url page_headers of
               Inl e \<Rightarrow> Inl e
             | Inr response \<Rightarrow>
                 if \<not> ok response
                 then Inl (Error (''Failed to fetch URL '' @ url @ '': HTTP ''
                        @ show_nat (status response) @ '' '' @ statusText response @ ''.''))
                 else responseText response)
      in case tried of
           Inr html \<Rightarrow> (Inr html, w1)
         | Inl (Error m) \<Rightarrow>
             if startsWith m ''Failed to fetch URL'' then (Inl (Error m), w1)
             else (Inl (Error (''Could not retrieve content from '' @ url @ ''. Reason: '' @ m)), w1)
         | Inl (Thrown s) \<Rightarrow>
             (Inl (Error (''Could not retrieve content from '' @ url @ ''. Reason: '' @ s)), w1))"

section \<open>The record extractor\<close>

text \<open>
  \<open>extractPropertyInfo\<close>: the flow returns the prompt's output, and \<open>{ properties: [] }\<close>
  when the output is \<open>null\<close> or the prompt throws. Its result type has \<open>properties\<close> as an
  array, so the callers' guard \<open>!result || !result.properties\<close> is never taken.
\<close>

definition extractPropertyInfo :: "platform \<Rightarrow> string \<Rightarrow> world \<Rightarrow> draft list \<times> world" where
  "extractPropertyInfo P htmlContent w =
     (case extract_prompt P w htmlContent of
        Inl e \<Rightarrow> ([], issue (ExtractPrompt htmlContent) w)
      | Inr None \<Rightarrow> ([], issue (ExtractPrompt htmlContent) w)
      | Inr (Some output) \<Rightarrow> (output, issue (ExtractPrompt htmlContent) w))"

section \<open>Resolving the image candidates\<close>

definition isHttpUrl :: "string \<Rightarrow> bool" where
  "isHttpUrl s \<longleftrightarrow> startsWith s ''http://'' \<or> startsWith s ''https://''"

text \<open>Truthiness of an optional string.\<close>

fun truthy :: "string option \<Rightarrow> bool" where
  "truthy None = False"
| "truthy (Some s) = (s \<noteq> [])"

definition baseUrlToUse :: "draft \<Rightarrow> string \<Rightarrow> string option" where
  "baseUrlToUse p originalUrl =
     (if truthy (draft.page_link p) \<and> isHttpUrl (orElse (draft.page_link p) [])
      then draft.page_link p
      else if originalUrl \<noteq> [] \<and> isHttpUrl originalUrl then Some originalUrl
      else None)"

text \<open>\<open>try { return new URL(...).href } catch (e) { return null }\<close>: \<open>None\<close> is \<open>null\<close>.\<close>

definition hrefOrNull :: "thrown + parsed_url \<Rightarrow> string option" where
  "hrefOrNull constructed = (case constructed of Inl e \<Rightarrow> None | Inr u \<Rightarrow> Some (href u))"

text \<open>The callback of \<open>p.image_urls.map\<close>.\<close>

definition resolveImageUrl :: "platform \<Rightarrow> draft \<Rightarrow> string \<Rightarrow> candidate \<Rightarrow> string option" where
  "resolveImageUrl P p originalUrl c =
     (case c of
        NotString \<Rightarrow> None
      | Str imgUrl \<Rightarrow>
          if imgUrl = [] then None
          else if isHttpUrl imgUrl then hrefOrNull (new_URL P imgUrl None)
          else if truthy (baseUrlToUse p originalUrl)
          then hrefOrNull (new_URL P imgUrl (baseUrlToUse p originalUrl))
          else None)"

definition absoluteImageUrls :: "platform \<Rightarrow> draft \<Rightarrow> string \<Rightarrow> string list" where
  "absoluteImageUrls P p originalUrl =
     (case draft.image_urls p of
        None \<Rightarrow> []
      | Some cs \<Rightarrow> List.map_filter (resolveImageUrl P p originalUrl) cs)"

section \<open>Fetching and persisting one image\<close>

definition image_headers :: "string \<Rightarrow> (string \<times> string) list" where
  "image_headers referer =
     [(''User-Agent'', ''Mozilla/5.0 (compatible; PropScrapeAI/1.0; +http://example.com/bot)''),
      (''Referer'', referer),
      (''Accept'', ''image/*,*/*;q=0.8'')]"

text \<open>The extension derived from an \<open>image/*\<close> content type.\<close>

definition extensionOfContentType :: "string \<Rightarrow> string" where
  "extensionOfContentType contentType =
     (let derived =
            (case js_index (split_on CHR ''/'' contentType) 1 of
               None \<Rightarrow> ''jpg''
             | Some subtype \<Rightarrow>
                 (case js_index (split_on CHR ''+'' subtype) 0 of
                    None \<Rightarrow> ''jpg''
                  | Some s \<Rightarrow> if toLowerCase s = [] then ''jpg'' else toLowerCase s));
          fileExtension = (if derived = ''jpeg'' then ''jpg'' else derived)
      in if \<not> matchesLowerAlnum fileExtension then ''jpg'' else fileExtension)"

text \<open>The extension guessed from the URL path; \<open>new URL(imgUrl)\<close> may throw.\<close>

definition extensionOfUrl :: "platform \<Rightarrow> string \<Rightarrow> thrown + string" where
  "extensionOfUrl P imgUrl =
     (case new_URL P imgUrl None of
        Inl e \<Rightarrow> Inl e
      | Inr u \<Rightarrow>
          (let urlPath = pathname u;
               extFromUrl = substring urlPath (lastIndexOf urlPath CHR ''.'' + 1)
           in if extFromUrl \<noteq> [] \<and> matchesLowerAlnum extFromUrl \<and> length extFromUrl < 5
              then Inr extFromUrl else Inr ''jpg''))"

definition fileExtensionFor :: "platform \<Rightarrow> string \<Rightarrow> string option \<Rightarrow> thrown + string" where
  "fileExtensionFor P imgUrl contentType =
     (case contentType of
        None \<Rightarrow> extensionOfUrl P imgUrl
      | Some ct \<Rightarrow>
          if ct \<noteq> [] \<and> startsWith ct ''image/'' then Inr (extensionOfContentType ct)
          else extensionOfUrl P imgUrl)"

text \<open>Lines 137 to 148: create the directory, write the file, return the public URL.\<close>

definition persistImage ::
  "platform \<Rightarrow> string \<Rightarrow> nat \<Rightarrow> string \<Rightarrow> string \<Rightarrow> world \<Rightarrow> (thrown + string) \<times> world" where
  "persistImage P propertyId imgIndex fileExtension imageBuffer w =
     (let propertyImageDir = path_join P [cwd P, ''public'', ''uploads'', ''properties'', propertyId];
          w1 = issue (Mkdir propertyImageDir) w
      in case fs_mkdir P w propertyImageDir of
           Inl e \<Rightarrow> (Inl e, w1)
         | Inr made \<Rightarrow>
             (let fileName = show_nat (Date_now P w1) @ ''_'' @ show_nat imgIndex @ ''.'' @ fileExtension;
                  filePath = path_join P [propertyImageDir, fileName];
                  w2 = issue (WriteFile filePath imageBuffer) w1
              in case fs_writeFile P w1 filePath imageBuffer of
                   Inl e \<Rightarrow> (Inl e, w2)
                 | Inr written \<Rightarrow>
                     (Inr (''/uploads/properties/'' @ propertyId @ ''/'' @ fileName), w2)))"

text \<open>\<open>originalUrl.startsWith('http') ? originalUrl : (p.page_link || '')\<close>\<close>

definition imageReferer :: "draft \<Rightarrow> string \<Rightarrow> string" where
  "imageReferer p originalUrl =
     (if startsWith originalUrl ''http'' then originalUrl else orElse (draft.page_link p) [])"

text \<open>The \<open>try\<close> block of the per-image callback: \<open>Inl\<close> is what it throws.\<close>

definition fetchAndPersist ::
  "platform \<Rightarrow> draft \<Rightarrow> string \<Rightarrow> string \<Rightarrow> nat \<Rightarrow> string \<Rightarrow> world \<Rightarrow> (thrown + string) \<times> world" where
  "fetchAndPersist P p originalUrl propertyId imgIndex imgUrl w =
     (let referer = imageReferer p originalUrl;
          w1 = issue (Fetch imgUrl (image_headers referer)) w
      in case fetch P w imgUrl (image_headers referer) of
           Inl e \<Rightarrow> (Inl e, w1)
         | Inr response \<Rightarrow>
             if \<not> ok response
             then (Inl (Error (''Fetch failed for '' @ imgUrl @ '' with status ''
                     @ show_nat (status response) @ '' '' @ statusText response)), w1)
             else
               (case fileExtensionFor P imgUrl (content_type response) of
                  Inl e \<Rightarrow> (Inl e, w1)
                | Inr fileExtension \<Rightarrow>
                    (case arrayBuffer response of
                       Inl e \<Rightarrow> (Inl e, w1)
                     | Inr imageBuffer \<Rightarrow>
                         if length imageBuffer = 0
                         then (Inl (Error (''Downloaded image buffer is empty for '' @ imgUrl @ ''.'')), w1)
                         else persistImage P propertyId imgIndex fileExtension imageBuffer w1)))"

text \<open>The whole callback: the \<open>catch\<close> block returns \<open>imgUrl\<close>.\<close>

definition processImage ::
  "platform \<Rightarrow> draft \<Rightarrow> string \<Rightarrow> string \<Rightarrow> nat \<Rightarrow> string \<Rightarrow> world \<Rightarrow> string \<times> world" where
  "processImage P p originalUrl propertyId imgIndex imgUrl w =
     (case fetchAndPersist P p originalUrl propertyId imgIndex imgUrl w of
        (Inl err, w') \<Rightarrow> (imgUrl, w')
      | (Inr publicUrl, w') \<Rightarrow> (publicUrl, w'))"

section \<open>Joining concurrent tasks\<close>

text \<open>
  \<open>Promise.all\<close> over tasks that never reject. The tasks complete in some order; each is
  run, as a whole, when its turn comes, and its result is kept with its index.
  \<open>completion_order\<close> reads any list as an order of completion of the tasks \<open>0..<n\<close>:
  the indices it lists first, then the others. The result array is by index of the
  task, not by completion.
\<close>

fun run_tasks :: "(world \<Rightarrow> 'a \<times> world) list \<Rightarrow> nat list \<Rightarrow> world \<Rightarrow> (nat \<times> 'a) list \<times> world" where
  "run_tasks tasks [] w = ([], w)"
| "run_tasks tasks (i # order) w =
     (let (r, w1) = (tasks ! i) w;
          (completed, w2) = run_tasks tasks order w1
      in ((i, r) # completed, w2))"

definition completion_order :: "nat \<Rightarrow> nat list \<Rightarrow> nat list" where
  "completion_order n order =
     (let listed = remdups (filter (\<lambda>i. i < n) order)
      in listed @ filter (\<lambda>i. i \<notin> set listed) [0..<n])"

definition Promise_all :: "(world \<Rightarrow> 'a \<times> world) list \<Rightarrow> nat list \<Rightarrow> world \<Rightarrow> 'a list \<times> world" where
  "Promise_all tasks order w =
     (let (completed, w') = run_tasks tasks (completion_order (length tasks) order) w
      in (map snd (sort_key fst completed), w'))"

text \<open>
  The completion orders of one job: of its per-record tasks, and of the image tasks of
  each record.
\<close>

record schedule =
  record_order :: "nat list"
  image_order :: "nat \<Rightarrow> nat list"

section \<open>Enhancing the text\<close>

text \<open>The \<open>{ enhancedTitle, enhancedDescription }\<close> answer of the enhancer.\<close>

record enhanced_content =
  enhancedTitle :: string
  enhancedDescription :: string

text \<open>
  Modelled from the spec: \<open>enhancePropertyContent\<close>, of
  \<open>ai/flows/enhance-property-description\<close>, which the pipeline imports and which is not
  among the sources. Section 4.3: if the input title or description is empty, skip the
  call and pass the inputs through unchanged; otherwise call the service, and on any
  thrown failure pass the original title and description through unchanged.
\<close>

definition enhancePropertyContent ::
  "platform \<Rightarrow> string \<Rightarrow> string \<Rightarrow> world \<Rightarrow> enhanced_content \<times> world" where
  "enhancePropertyContent P t d w =
     (if t = [] \<or> d = [] then (\<lparr>enhancedTitle = t, enhancedDescription = d\<rparr>, w)
      else
        (case enhance_prompt P w t d of
           Inl e \<Rightarrow>
             (\<lparr>enhancedTitle = t, enhancedDescription = d\<rparr>, issue (EnhancePrompt t d) w)
         | Inr (t', d') \<Rightarrow>
             (\<lparr>enhancedTitle = t', enhancedDescription = d'\<rparr>, issue (EnhancePrompt t d) w)))"

section \<open>Processing the extracted records\<close>

definition placeholder :: string where
  "placeholder = ''https://placehold.co/600x400.png''"

text \<open>The callback of \<open>properties.map\<close> in \<open>processScrapedData\<close>, for the draft \<open>p\<close> at \<open>index\<close>.\<close>

definition processProperty ::
  "platform \<Rightarrow> nat list \<Rightarrow> string \<Rightarrow> nat \<Rightarrow> draft \<Rightarrow> world \<Rightarrow> property \<times> world" where
  "processProperty P order originalUrl index p w =
     (let propertyId = ''prop-'' @ show_nat (Date_now P w) @ ''-'' @ show_nat index;
          candidates = absoluteImageUrls P p originalUrl;
          imageProcessingPromises =
            map (\<lambda>(imgIndex, imgUrl). processImage P p originalUrl propertyId imgIndex imgUrl)
              (enumerate 0 candidates);
          (settled, w1) = Promise_all imageProcessingPromises order w;
          processedImageUrls = filter (\<lambda>u. u \<noteq> []) settled;
          finalImageUrls =
            (if length processedImageUrls > 0 then processedImageUrls else [placeholder]);
          (enhancedContent, w2) =
            enhancePropertyContent P (orElse (draft.title p) []) (orElse (draft.description p) []) w1
      in (\<lparr> spread = p,
            id = propertyId,
            original_url = originalUrl,
            original_title = orElse (draft.original_title p) (orElse (draft.title p) []),
            original_description =
              orElse (draft.original_description p) (orElse (draft.description p) []),
            title = enhancedTitle enhancedContent,
            description = enhancedDescription enhancedContent,
            scraped_at = toISOString P w2,
            image_urls = finalImageUrls,
            image_url = js_index finalImageUrls 0,
            propertyCountry = orElse (draft.propertyCountry p) ''UAE'',
            propertyAgent = orElse (draft.propertyAgent p) ''ahmed'' \<rparr>, w2))"

text \<open>
  Modelled from the spec: \<open>saveHistoryEntry\<close>, of \<open>lib/db\<close>, which is not among the
  sources. Section 6: the History Recorder is \<open>append(entry)\<close>, write-only.
\<close>

definition saveHistoryEntry :: "history_entry \<Rightarrow> world \<Rightarrow> world" where
  "saveHistoryEntry e w = w\<lparr>history := history w @ [e]\<rparr>"

text \<open>
  \<open>processScrapedData\<close>: the job's kind and details come as \<open>historyEntry\<close>; the count
  is added here. \<open>revalidatePath\<close> only invalidates a page cache and is left out.
\<close>

definition processScrapedData ::
  "platform \<Rightarrow> schedule \<Rightarrow> draft list \<Rightarrow> string \<Rightarrow> job_type \<times> string \<Rightarrow> world
     \<Rightarrow> property list \<times> world" where
  "processScrapedData P S drafts originalUrl historyEntry w =
     (let processingPromises =
            map (\<lambda>(index, p). processProperty P (image_order S index) originalUrl index p)
              (enumerate 0 drafts);
          (finalProperties, w1) = Promise_all processingPromises (record_order S) w;
          w2 = saveHistoryEntry
                 \<lparr> type = fst historyEntry, details = snd historyEntry,
                   propertyCount = length finalProperties \<rparr> w1
      in (finalProperties, w2))"

section \<open>The three jobs\<close>

text \<open>\<open>e.message\<close> of a caught value typed \<open>any\<close>.\<close>

fun messageProperty :: "thrown \<Rightarrow> string" where
  "messageProperty (Error m) = m"
| "messageProperty (Thrown s) = ''undefined''"

text \<open>The \<open>try\<close>/\<open>catch\<close> that opens \<open>scrapeUrl\<close>: both throws end in the same error.\<close>

definition validateUrl :: "platform \<Rightarrow> string \<Rightarrow> thrown + unit" where
  "validateUrl P u =
     (let tried =
            (case new_URL P u None of
               Inl e \<Rightarrow> Inl e
             | Inr parsedUrl \<Rightarrow>
                 if protocol parsedUrl \<noteq> ''http:'' \<and> protocol parsedUrl \<noteq> ''https:''
                 then Inl (Error ''Invalid URL protocol. Only HTTP and HTTPS are supported.'')
                 else Inr ())
      in case tried of
           Inr checked \<Rightarrow> Inr ()
         | Inl e \<Rightarrow>
             Inl (Error (''Invalid URL provided: '' @ [CHR 0x22] @ u @ [CHR 0x22]
               @ ''. Please ensure it is a valid HTTP or HTTPS URL. Reason: ''
               @ messageProperty e)))"

definition scrapeUrl ::
  "platform \<Rightarrow> schedule \<Rightarrow> string \<Rightarrow> world \<Rightarrow> (thrown + property list) \<times> world" where
  "scrapeUrl P S u w =
     (case validateUrl P u of
        Inl e \<Rightarrow> (Inl e, w)
      | Inr valid \<Rightarrow>
          (case getHtml P u w of
             (Inl e, w1) \<Rightarrow> (Inl e, w1)
           | (Inr htmlContent, w1) \<Rightarrow>
               (let (drafts, w2) = extractPropertyInfo P htmlContent w1;
                    (finalProperties, w3) = processScrapedData P S drafts u (URL, u) w2
                in (Inr finalProperties, w3))))"

text \<open>\<open>scrapeHtml\<close>: \<open>originalUrl\<close> is optional, with the default \<open>'scraped-from-html'\<close>.\<close>

definition scrapeHtml ::
  "platform \<Rightarrow> schedule \<Rightarrow> string \<Rightarrow> string option \<Rightarrow> world
     \<Rightarrow> (thrown + property list) \<times> world" where
  "scrapeHtml P S html originalUrlArg w =
     (let originalUrl = (case originalUrlArg of None \<Rightarrow> ''scraped-from-html'' | Some u \<Rightarrow> u)
      in if html = [] \<or> length html < 100 then (Inl (Error ''Invalid HTML provided.''), w)
         else
           (let (drafts, w1) = extractPropertyInfo P html w;
                (finalProperties, w2) =
                  processScrapedData P S drafts originalUrl (HTML, ''Pasted HTML content'') w1
            in (Inr finalProperties, w2)))"





section \<open>Names for parts of a processed record\<close>

text \<open>The identifier \<open>processProperty\<close> gives the record at \<open>index\<close> when it starts in \<open>w\<close>.\<close>

definition propertyIdAt :: "platform \<Rightarrow> world \<Rightarrow> nat \<Rightarrow> string" where
  "propertyIdAt P w index = ''prop-'' @ show_nat (Date_now P w) @ ''-'' @ show_nat index"

text \<open>What \<open>await Promise.all(imageProcessingPromises)\<close> yields, before the filter.\<close>

definition settledImages ::
  "platform \<Rightarrow> nat list \<Rightarrow> string \<Rightarrow> nat \<Rightarrow> draft \<Rightarrow> world \<Rightarrow> string list" where
  "settledImages P order originalUrl index p w =
     fst (Promise_all
       (map (\<lambda>(imgIndex, imgUrl).
               processImage P p originalUrl (propertyIdAt P w index) imgIndex imgUrl)
          (enumerate 0 (absoluteImageUrls P p originalUrl))) order w)"

text \<open>The world when the image tasks of a record have all settled.\<close>

definition afterImages ::
  "platform \<Rightarrow> nat list \<Rightarrow> string \<Rightarrow> nat \<Rightarrow> draft \<Rightarrow> world \<Rightarrow> world" where
  "afterImages P order originalUrl index p w =
     snd (Promise_all
       (map (\<lambda>(imgIndex, imgUrl).
               processImage P p originalUrl (propertyIdAt P w index) imgIndex imgUrl)
          (enumerate 0 (absoluteImageUrls P p originalUrl))) order w)"









text \<open>\<open>(p.image_urls && Array.isArray(p.image_urls)) ? p.image_urls : []\<close>\<close>

definition candidatesOf :: "draft \<Rightarrow> candidate list" where
  "candidatesOf p = (case draft.image_urls p of None \<Rightarrow> [] | Some cs \<Rightarrow> cs)"

text \<open>A candidate that the resolution step takes as absolute already.\<close>

fun isAbsoluteCandidate :: "candidate \<Rightarrow> bool" where
  "isAbsoluteCandidate (Str s) = isHttpUrl s"
| "isAbsoluteCandidate NotString = False"

text \<open>The draft's own page link is an absolute http(s) URL.\<close>

definition pageLinkAbsolute :: "draft \<Rightarrow> bool" where
  "pageLinkAbsolute p \<longleftrightarrow> (case draft.page_link p of None \<Rightarrow> False | Some l \<Rightarrow> isHttpUrl l)"

text \<open>
  The ways the download of an image fails: the fetch throws, the response is not 2xx,
  reading the body throws, or the payload has zero length.
\<close>

definition imageFetchFails :: "platform \<Rightarrow> draft \<Rightarrow> string \<Rightarrow> string \<Rightarrow> world \<Rightarrow> bool" where
  "imageFetchFails P p originalUrl imgUrl w \<longleftrightarrow>
     (case fetch P w imgUrl (image_headers (imageReferer p originalUrl)) of
        Inl e \<Rightarrow> True
      | Inr resp \<Rightarrow>
          \<not> ok resp \<or> (case arrayBuffer resp of Inl e \<Rightarrow> True | Inr b \<Rightarrow> b = []))"

text \<open>The number of requests to the enhancement service sent so far.\<close>

fun isEnhancePrompt :: "request \<Rightarrow> bool" where
  "isEnhancePrompt (EnhancePrompt t d) = True"
| "isEnhancePrompt r = False"

definition enhanceCalls :: "world \<Rightarrow> nat" where
  "enhanceCalls w = length (filter isEnhancePrompt (requests w))"

section \<open>An example platform\<close>

text \<open>
  A small site to run the pipeline on. \<open>example_URL\<close> answers as the URL constructor
  does on the inputs listed, and rejects every other input: a relative reference is
  resolved against the directory of the base, a host with no path gets the path \<open>/\<close>,
  and \<open>http://\<close> has no host and is rejected.
\<close>

definition url_table :: "((string \<times> string option) \<times> parsed_url) list" where
  "url_table =
     [((''imgs/a.jpg'', Some ''https://x.com/listing/5''),
         \<lparr>href = ''https://x.com/listing/imgs/a.jpg'', protocol = ''https:'',
          pathname = ''/listing/imgs/a.jpg''\<rparr>),
      ((''imgs/a.jpg'', Some ''http://a.test''),
         \<lparr>href = ''http://a.test/imgs/a.jpg'', protocol = ''http:'', pathname = ''/imgs/a.jpg''\<rparr>),
      ((''https://x.com/listing/imgs/a.jpg'', None),
         \<lparr>href = ''https://x.com/listing/imgs/a.jpg'', protocol = ''https:'',
          pathname = ''/listing/imgs/a.jpg''\<rparr>),
      ((''http://a.test/imgs/a.jpg'', None),
         \<lparr>href = ''http://a.test/imgs/a.jpg'', protocol = ''http:'', pathname = ''/imgs/a.jpg''\<rparr>),
      ((''https://x.com/a.png'', None),
         \<lparr>href = ''https://x.com/a.png'', protocol = ''https:'', pathname = ''/a.png''\<rparr>),
      ((''https://x.com/b.jpg'', None),
         \<lparr>href = ''https://x.com/b.jpg'', protocol = ''https:'', pathname = ''/b.jpg''\<rparr>),
      ((''https://x.com/doc'', None),
         \<lparr>href = ''https://x.com/doc'', protocol = ''https:'', pathname = ''/doc''\<rparr>),
      ((''https://x.com'', None),
         \<lparr>href = ''https://x.com/'', protocol = ''https:'', pathname = ''/''\<rparr>),
      ((''https://x.com/'', None),
         \<lparr>href = ''https://x.com/'', protocol = ''https:'', pathname = ''/''\<rparr>),
      ((''http://a.test'', None),
         \<lparr>href = ''http://a.test/'', protocol = ''http:'', pathname = ''/''\<rparr>),
      ((''http://b.test'', None),
         \<lparr>href = ''http://b.test/'', protocol = ''http:'', pathname = ''/''\<rparr>),
      ((''http://c.test'', None),
         \<lparr>href = ''http://c.test/'', protocol = ''http:'', pathname = ''/''\<rparr>),
      ((''ftp://x.com/f'', None),
         \<lparr>href = ''ftp://x.com/f'', protocol = ''ftp:'', pathname = ''/f''\<rparr>)]"

definition example_URL :: "string \<Rightarrow> string option \<Rightarrow> thrown + parsed_url" where
  "example_URL input base =
     (case map_of url_table (input, base) of
        None \<Rightarrow> Inl (Error ''Invalid URL'')
      | Some u \<Rightarrow> Inr u)"

text \<open>Three drafts: one listing with three images, one with a relative image, one bare.\<close>

definition draft_a :: draft where
  "draft_a =
     \<lparr> page_link = Some ''https://x.com/listing/5'',
       original_title = None, original_description = None,
       title = Some ''Villa'', description = Some ''Sea view'',
       image_urls = Some [Str ''https://x.com/a.png'', Str ''https://x.com/b.jpg'',
                          Str ''imgs/a.jpg'', Str [], NotString],
       propertyCountry = None, propertyAgent = Some ''sara'', others = [] \<rparr>"

definition draft_rel :: draft where
  "draft_rel =
     \<lparr> page_link = Some ''/listing/7'',
       original_title = None, original_description = None,
       title = Some ''Flat'', description = None,
       image_urls = Some [Str ''imgs/a.jpg'', Str ''/b.jpg''],
       propertyCountry = None, propertyAgent = None, others = [] \<rparr>"

definition draft_c :: draft where
  "draft_c =
     \<lparr> page_link = None,
       original_title = None, original_description = None,
       title = Some ''Studio'', description = Some ''Fails to enhance'',
       image_urls = None,
       propertyCountry = Some ''Oman'', propertyAgent = None, others = [] \<rparr>"

definition html_a :: string where
  "html_a = ''<html>a</html>''"

definition html_c :: string where
  "html_c = ''<html>c</html>''"

definition html_pasted :: string where
  "html_pasted = replicate 100 (CHR ''x'')"

definition html_empty :: string where
  "html_empty = replicate 120 (CHR ''y'')"

definition example_fetch :: "world \<Rightarrow> string \<Rightarrow> (string \<times> string) list \<Rightarrow> thrown + response" where
  "example_fetch w u hdrs =
     (if u = ''http://a.test'' then
        Inr \<lparr>ok = True, status = 200, statusText = ''OK'', content_type = Some ''text/html'',
             responseText = Inr html_a, arrayBuffer = Inr html_a\<rparr>
      else if u = ''http://c.test'' then
        Inr \<lparr>ok = True, status = 200, statusText = ''OK'', content_type = Some ''text/html'',
             responseText = Inr html_c, arrayBuffer = Inr html_c\<rparr>
      else if u = ''http://b.test'' then
        Inr \<lparr>ok = False, status = 404, statusText = ''Not Found'', content_type = None,
             responseText = Inr [], arrayBuffer = Inr []\<rparr>
      else if u = ''https://x.com/a.png'' then
        Inr \<lparr>ok = True, status = 200, statusText = ''OK'', content_type = Some ''image/png'',
             responseText = Inr ''PNG'', arrayBuffer = Inr ''PNG''\<rparr>
      else if u = ''https://x.com/b.jpg'' then
        Inr \<lparr>ok = False, status = 404, statusText = ''Not Found'', content_type = None,
             responseText = Inr [], arrayBuffer = Inr []\<rparr>
      else if u = ''https://x.com/listing/imgs/a.jpg'' then
        Inr \<lparr>ok = True, status = 200, statusText = ''OK'', content_type = None,
             responseText = Inr ''JPEG'', arrayBuffer = Inr ''JPEG''\<rparr>
      else if u = ''https://x.com/doc'' then
        Inr \<lparr>ok = True, status = 200, statusText = ''OK'', content_type = Some ''text/html'',
             responseText = Inr ''<html>'', arrayBuffer = Inr ''<html>''\<rparr>
      else Inl (Error ''fetch failed''))"

definition example_extract :: "world \<Rightarrow> string \<Rightarrow> thrown + draft list option" where
  "example_extract w html =
     (if html = html_a then Inr (Some [draft_a])
      else if html = html_c then Inr (Some [draft_c])
      else if html = html_pasted then Inr (Some [draft_rel])
      else if html = html_empty then Inr (Some [])
      else Inl (Error ''model unavailable''))"

definition example_enhance :: "world \<Rightarrow> string \<Rightarrow> string \<Rightarrow> thrown + string \<times> string" where
  "example_enhance w t d =
     (if d = ''Fails to enhance'' then Inl (Error ''quota exceeded'')
      else Inr (''Stunning '' @ t, d @ ''!''))"

definition site :: platform where
  "site =
     \<lparr> new_URL = example_URL,
       fetch = example_fetch,
       Date_now = (\<lambda>w. 1700 + length (requests w)),
       toISOString = (\<lambda>w. ''2023-11-14T22:13:20.000Z''),
       cwd = ''/app'',
       path_join = (\<lambda>parts. foldr (\<lambda>part rest. if rest = [] then part else part @ ''/'' @ rest) parts []),
       fs_mkdir = (\<lambda>w dir. Inr ()),
       fs_writeFile = (\<lambda>w file bytes. Inr ()),
       extract_prompt = example_extract,
       enhance_prompt = example_enhance \<rparr>"

definition w0 :: world where
  "w0 = \<lparr> history = [], requests = [] \<rparr>"

text \<open>A schedule in which the last image of every record completes first.\<close>

definition last_first :: schedule where
  "last_first = \<lparr> record_order = [0], image_order = (\<lambda>index. [2, 0, 1]) \<rparr>"


section \<open>Lemmas on joining tasks\<close>

lemma completion_order_set: "set (completion_order n order) = {0..<n}"
  by (auto simp: completion_order_def Let_def)

lemma completion_order_distinct: "distinct (completion_order n order)"
  by (auto simp: completion_order_def Let_def)

lemma completion_order_permutation:
  "distinct order \<Longrightarrow> set order = {0..<n} \<Longrightarrow> completion_order n order = order"
proof -
  assume d: "distinct order" and s: "set order = {0..<n}"
  have "filter (\<lambda>i. i < n) order = order" using s by (auto intro: filter_True)
  moreover have "filter (\<lambda>i. i \<notin> set order) [0..<n] = []" using s by (auto simp: filter_empty_conv)
  ultimately show ?thesis using d by (simp add: completion_order_def Let_def)
qed

lemma run_tasks_indices: "map fst (fst (run_tasks tasks order w)) = order"
  by (induction order arbitrary: w) (auto simp: split_beta Let_def)

lemma run_tasks_results:
  "(i, r) \<in> set (fst (run_tasks tasks order w)) \<Longrightarrow> \<exists>w'. r = fst ((tasks ! i) w')"
  by (induction order arbitrary: w) (auto simp: split_beta Let_def)

lemma run_tasks_preserves:
  assumes "\<And>i w'. i \<in> set order \<Longrightarrow> f (snd ((tasks ! i) w')) = f w'"
  shows "f (snd (run_tasks tasks order w)) = f w"
  using assms by (induction order arbitrary: w) (auto simp: split_beta Let_def)

lemma sort_key_fst_indices:
  assumes "distinct (map fst xs)" and "set (map fst xs) = {0..<n}"
  shows "map fst (sort_key fst xs) = [0..<n]"
proof -
  have "sorted (map fst (sort_key fst xs))" by (rule sorted_sort_key)
  moreover have "distinct (map fst (sort_key fst xs))" using assms(1) by (simp add: distinct_map)
  moreover have "set (map fst (sort_key fst xs)) = set [0..<n]" using assms(2) by simp
  ultimately show ?thesis
    by (intro sorted_distinct_set_unique) auto
qed

lemma Promise_all_length: "length (fst (Promise_all tasks order w)) = length tasks"
proof -
  obtain completed w' where rt: "run_tasks tasks (completion_order (length tasks) order) w = (completed, w')"
    by (cases "run_tasks tasks (completion_order (length tasks) order) w")
  have "map fst completed = completion_order (length tasks) order"
    using run_tasks_indices[of tasks "completion_order (length tasks) order" w] rt by simp
  then have "length completed = length (completion_order (length tasks) order)"
    by (metis length_map)
  moreover have "length (completion_order (length tasks) order) = length tasks"
    using completion_order_distinct[of "length tasks" order] completion_order_set[of "length tasks" order]
    by (metis distinct_card card_atLeastLessThan diff_zero)
  ultimately show ?thesis by (simp add: Promise_all_def rt)
qed

lemma Promise_all_nth:
  assumes "i < length tasks"
  shows "\<exists>w'. fst (Promise_all tasks order w) ! i = fst ((tasks ! i) w')"
proof -
  let ?n = "length tasks"
  obtain completed w1 where rt: "run_tasks tasks (completion_order ?n order) w = (completed, w1)"
    by (cases "run_tasks tasks (completion_order ?n order) w")
  have ix: "map fst completed = completion_order ?n order"
    using run_tasks_indices[of tasks "completion_order ?n order" w] rt by simp
  let ?ys = "sort_key fst completed"
  have m: "map fst ?ys = [0..<?n]"
    by (rule sort_key_fst_indices) (simp_all add: ix completion_order_distinct completion_order_set)
  then have len: "length ?ys = ?n" by (metis length_map length_upt diff_zero)
  have "fst (?ys ! i) = i"
    using m assms len by (metis nth_map nth_upt add_0)
  moreover have "?ys ! i \<in> set completed"
    using len assms by (metis nth_mem set_sort)
  ultimately have "(i, snd (?ys ! i)) \<in> set (fst (run_tasks tasks (completion_order ?n order) w))"
    using rt by (metis fst_conv prod.collapse)
  from run_tasks_results[OF this] obtain w' where "snd (?ys ! i) = fst ((tasks ! i) w')" ..
  then show ?thesis using len assms by (auto simp: Promise_all_def rt)
qed

lemma Promise_all_preserves:
  assumes "\<And>i w'. i < length tasks \<Longrightarrow> f (snd ((tasks ! i) w')) = f w'"
  shows "f (snd (Promise_all tasks order w)) = f w"
proof -
  have "f (snd (run_tasks tasks (completion_order (length tasks) order) w)) = f w"
    by (rule run_tasks_preserves) (use assms completion_order_set in auto)
  then show ?thesis by (simp add: Promise_all_def split_beta)
qed

section \<open>Lemmas on the image list of a record\<close>

lemma persistImage_nonempty:
  "persistImage P pid i ext buf w = (Inr publicUrl, w') \<Longrightarrow> publicUrl \<noteq> []"
  by (auto simp: persistImage_def Let_def split: sum.splits)

lemma fetchAndPersist_nonempty:
  "fetchAndPersist P p ou pid i u w = (Inr publicUrl, w') \<Longrightarrow> publicUrl \<noteq> []"
  by (auto simp: fetchAndPersist_def Let_def split: sum.splits if_splits dest: persistImage_nonempty)

lemma processImage_nonempty:
  "u \<noteq> [] \<Longrightarrow> fst (processImage P p ou pid i u w) \<noteq> []"
  by (auto simp: processImage_def split: prod.splits sum.splits dest: fetchAndPersist_nonempty)

lemma image_task_nth:
  "i < length cands \<Longrightarrow>
   map (\<lambda>(imgIndex, imgUrl). processImage P p ou pid imgIndex imgUrl) (enumerate 0 cands) ! i
     = processImage P p ou pid i (cands ! i)"
  by (simp add: nth_enumerate_eq)

lemma processProperty_id: "id (fst (processProperty P order ou index p w)) = propertyIdAt P w index"
  by (simp add: processProperty_def propertyIdAt_def Let_def split_beta)

lemma processProperty_image_urls:
  "image_urls (fst (processProperty P order ou index p w)) =
     (if filter (\<lambda>u. u \<noteq> []) (settledImages P order ou index p w) \<noteq> []
      then filter (\<lambda>u. u \<noteq> []) (settledImages P order ou index p w) else [placeholder])"
  by (simp add: processProperty_def propertyIdAt_def settledImages_def Let_def split_beta)

lemma processProperty_image_url:
  "image_url (fst (processProperty P order ou index p w)) =
     js_index (image_urls (fst (processProperty P order ou index p w))) 0"
  by (simp add: processProperty_def Let_def split_beta)

lemma settledImages_length:
  "length (settledImages P order ou index p w) = length (absoluteImageUrls P p ou)"
  by (simp add: settledImages_def Promise_all_length)

lemma settledImages_nth:
  assumes "i < length (absoluteImageUrls P p ou)"
  shows "\<exists>w'. settledImages P order ou index p w ! i
           = fst (processImage P p ou (propertyIdAt P w index) i (absoluteImageUrls P p ou ! i) w')"
proof -
  let ?tasks = "map (\<lambda>(imgIndex, imgUrl). processImage P p ou (propertyIdAt P w index) imgIndex imgUrl)
          (enumerate 0 (absoluteImageUrls P p ou))"
  have "i < length ?tasks" using assms by simp
  from Promise_all_nth[OF this, of order w]
  obtain w' where "fst (Promise_all ?tasks order w) ! i = fst ((?tasks ! i) w')" ..
  moreover have "?tasks ! i = processImage P p ou (propertyIdAt P w index) i (absoluteImageUrls P p ou ! i)"
    using assms by (rule image_task_nth)
  ultimately have "settledImages P order ou index p w ! i
      = fst (processImage P p ou (propertyIdAt P w index) i (absoluteImageUrls P p ou ! i) w')"
    by (simp add: settledImages_def)
  then show ?thesis ..
qed

lemma settledImages_nonempty:
  assumes "[] \<notin> set (absoluteImageUrls P p ou)"
  shows "[] \<notin> set (settledImages P order ou index p w)"
proof
  assume "[] \<in> set (settledImages P order ou index p w)"
  then obtain i where i: "i < length (settledImages P order ou index p w)"
    and e: "settledImages P order ou index p w ! i = []"
    by (auto simp: in_set_conv_nth)
  from i have i': "i < length (absoluteImageUrls P p ou)" by (simp add: settledImages_length)
  from settledImages_nth[OF i', of order index w] obtain w' where
    "settledImages P order ou index p w ! i
       = fst (processImage P p ou (propertyIdAt P w index) i (absoluteImageUrls P p ou ! i) w')" ..
  moreover have "absoluteImageUrls P p ou ! i \<noteq> []" using assms i' by (metis nth_mem)
  ultimately show False using e processImage_nonempty by metis
qed

lemma image_urls_settled:
  assumes "absoluteImageUrls P p ou \<noteq> []" and "[] \<notin> set (absoluteImageUrls P p ou)"
  shows "image_urls (fst (processProperty P order ou index p w)) = settledImages P order ou index p w"
proof -
  have "filter (\<lambda>u. u \<noteq> []) (settledImages P order ou index p w) = settledImages P order ou index p w"
    using settledImages_nonempty[OF assms(2)] by (auto intro: filter_True)
  moreover have "settledImages P order ou index p w \<noteq> []"
    using assms(1) settledImages_length[of P order ou index p w] by (metis length_0_conv)
  ultimately show ?thesis by (simp add: processProperty_image_urls)
qed

section \<open>Lemmas on the records of a job\<close>

lemma record_task_nth:
  "k < length drafts \<Longrightarrow>
   map (\<lambda>(index, p). processProperty P (image_order S index) ou index p) (enumerate 0 drafts) ! k
     = processProperty P (image_order S k) ou k (drafts ! k)"
  by (simp add: nth_enumerate_eq)

lemma processScrapedData_length:
  "length (fst (processScrapedData P S drafts ou he w)) = length drafts"
  by (simp add: processScrapedData_def Let_def split_beta Promise_all_length)

lemma processScrapedData_nth:
  assumes "k < length drafts"
  shows "\<exists>w'. fst (processScrapedData P S drafts ou he w) ! k
           = fst (processProperty P (image_order S k) ou k (drafts ! k) w')"
proof -
  let ?tasks = "map (\<lambda>(index, p). processProperty P (image_order S index) ou index p) (enumerate 0 drafts)"
  have "k < length ?tasks" using assms by simp
  from Promise_all_nth[OF this, of "record_order S" w]
  obtain w' where "fst (Promise_all ?tasks (record_order S) w) ! k = fst ((?tasks ! k) w')" ..
  moreover have "?tasks ! k = processProperty P (image_order S k) ou k (drafts ! k)"
    using assms by (rule record_task_nth)
  ultimately have "fst (processScrapedData P S drafts ou he w) ! k
      = fst (processProperty P (image_order S k) ou k (drafts ! k) w')"
    by (simp add: processScrapedData_def Let_def split_beta)
  then show ?thesis ..
qed

lemma processProperty_images_nonempty:
  "image_urls (fst (processProperty P order ou index p w)) \<noteq> []"
  by (simp add: processProperty_image_urls placeholder_def)

lemma processProperty_primary:
  "image_url (fst (processProperty P order ou index p w))
     = Some (image_urls (fst (processProperty P order ou index p w)) ! 0)"
  using processProperty_images_nonempty[of P order ou index p w]
  by (simp add: processProperty_image_url js_index_def)

lemma processProperty_sentinel:
  assumes "absoluteImageUrls P p ou = []"
  shows "image_urls (fst (processProperty P order ou index p w)) = [placeholder]"
proof -
  have "settledImages P order ou index p w = []"
    using settledImages_length[of P order ou index p w] assms by simp
  then show ?thesis by (simp add: processProperty_image_urls)
qed

section \<open>C2: the image list is never empty\<close>

text \<open>
  Claim C2. Every finalized record that \<open>processScrapedData\<close> returns has at least one
  entry in \<open>image_urls\<close>, its \<open>image_url\<close> is the entry at index 0, and when no
  candidate of its draft resolves the list is the placeholder alone. This holds for
  every platform, so for every pattern of image successes and failures, and for every
  schedule.
\<close>

theorem image_urls_never_empty:
  assumes "k < length drafts"
  shows "1 \<le> length (image_urls (fst (processScrapedData P S drafts ou he w) ! k))
       \<and> image_url (fst (processScrapedData P S drafts ou he w) ! k)
           = Some (image_urls (fst (processScrapedData P S drafts ou he w) ! k) ! 0)
       \<and> (absoluteImageUrls P (drafts ! k) ou = [] \<longrightarrow>
            image_urls (fst (processScrapedData P S drafts ou he w) ! k) = [placeholder])"
proof -
  from processScrapedData_nth[OF assms, of P S ou he w] obtain w' where
    r: "fst (processScrapedData P S drafts ou he w) ! k
          = fst (processProperty P (image_order S k) ou k (drafts ! k) w')" ..
  have "image_urls (fst (processProperty P (image_order S k) ou k (drafts ! k) w')) \<noteq> []"
    by (rule processProperty_images_nonempty)
  then have "1 \<le> length (image_urls (fst (processProperty P (image_order S k) ou k (drafts ! k) w')))"
    by (simp add: Suc_le_eq)
  then show ?thesis
    unfolding r using processProperty_primary processProperty_sentinel by blast
qed

theorem image_urls_never_empty_witness:
  "(0::nat) < length [draft_rel]
   \<and> 1 \<le> length (image_urls (fst (processScrapedData site last_first [draft_rel] ''scraped-from-html'' (HTML, ''Pasted HTML content'') w0) ! 0))
   \<and> image_url (fst (processScrapedData site last_first [draft_rel] ''scraped-from-html'' (HTML, ''Pasted HTML content'') w0) ! 0)
           = Some (image_urls (fst (processScrapedData site last_first [draft_rel] ''scraped-from-html'' (HTML, ''Pasted HTML content'') w0) ! 0) ! 0)
   \<and> absoluteImageUrls site ([draft_rel] ! 0) ''scraped-from-html'' = []
   \<and> image_urls (fst (processScrapedData site last_first [draft_rel] ''scraped-from-html'' (HTML, ''Pasted HTML content'') w0) ! 0) = [placeholder]"
proof -
  have h: "(0::nat) < length [draft_rel]" by simp
  have e: "absoluteImageUrls site ([draft_rel] ! 0) ''scraped-from-html'' = []"
    by (simp add: absoluteImageUrls_def draft_rel_def resolveImageUrl_def isHttpUrl_def
        startsWith_def baseUrlToUse_def List.map_filter_simps)
  from image_urls_never_empty[OF h, of site last_first "''scraped-from-html''" "(HTML, ''Pasted HTML content'')" w0] e h
  show ?thesis by blast
qed

section \<open>C3: a failed image keeps its resolved URL\<close>

lemma processImage_fallback:
  "isl (fst (fetchAndPersist P p ou pid i u w)) \<Longrightarrow> fst (processImage P p ou pid i u w) = u"
  by (auto simp: processImage_def split: prod.splits sum.splits)

lemma imageFetchFails_throws:
  "imageFetchFails P p ou u w \<Longrightarrow> isl (fst (fetchAndPersist P p ou pid i u w))"
  by (auto simp: imageFetchFails_def fetchAndPersist_def Let_def split: sum.splits)

text \<open>
  Claim C3. For a record whose resolved candidates are non-empty strings (an \<open>href\<close>
  always is), the entry of \<open>image_urls\<close> at index \<open>i\<close> is the outcome of the image task
  of candidate \<open>i\<close> in the world where that task ran. When the \<open>try\<close> block threw there,
  the entry is the resolved URL of the candidate itself; so it is when the fetch threw,
  the response was not 2xx, the body could not be read or was empty. The task returns a
  string in every case: nothing is propagated to the record.
\<close>

theorem failed_image_keeps_resolved_url:
  assumes "[] \<notin> set (absoluteImageUrls P p ou)" and "i < length (absoluteImageUrls P p ou)"
  shows "\<exists>w'. image_urls (fst (processProperty P order ou index p w)) ! i
                 = fst (processImage P p ou (id (fst (processProperty P order ou index p w))) i
                          (absoluteImageUrls P p ou ! i) w')
             \<and> (isl (fst (fetchAndPersist P p ou (id (fst (processProperty P order ou index p w))) i
                          (absoluteImageUrls P p ou ! i) w'))
                  \<longrightarrow> image_urls (fst (processProperty P order ou index p w)) ! i
                        = absoluteImageUrls P p ou ! i)
             \<and> (imageFetchFails P p ou (absoluteImageUrls P p ou ! i) w'
                  \<longrightarrow> image_urls (fst (processProperty P order ou index p w)) ! i
                        = absoluteImageUrls P p ou ! i)"
proof -
  have ne: "absoluteImageUrls P p ou \<noteq> []" using assms(2) by auto
  have iu: "image_urls (fst (processProperty P order ou index p w)) = settledImages P order ou index p w"
    using ne assms(1) by (rule image_urls_settled)
  from settledImages_nth[OF assms(2), of order index w] obtain w' where
    s: "settledImages P order ou index p w ! i
          = fst (processImage P p ou (propertyIdAt P w index) i (absoluteImageUrls P p ou ! i) w')" ..
  show ?thesis
    unfolding iu processProperty_id
    using s processImage_fallback imageFetchFails_throws by metis
qed

theorem failed_image_keeps_resolved_url_witness:
  "[] \<notin> set (absoluteImageUrls site draft_a ''http://a.test'')
   \<and> (1::nat) < length (absoluteImageUrls site draft_a ''http://a.test'')
   \<and> absoluteImageUrls site draft_a ''http://a.test'' ! 1 = ''https://x.com/b.jpg''
   \<and> imageFetchFails site draft_a ''http://a.test'' ''https://x.com/b.jpg'' w0
   \<and> image_urls (fst (processProperty site [2, 0, 1] ''http://a.test'' 0 draft_a w0)) ! 1
       = ''https://x.com/b.jpg''"
proof -
  have c: "absoluteImageUrls site draft_a ''http://a.test''
     = [''https://x.com/a.png'', ''https://x.com/b.jpg'', ''https://x.com/listing/imgs/a.jpg'']"
    by code_simp
  have h1: "[] \<notin> set (absoluteImageUrls site draft_a ''http://a.test'')" by (simp add: c)
  have h2: "(1::nat) < length (absoluteImageUrls site draft_a ''http://a.test'')" by (simp add: c)
  have f: "imageFetchFails site draft_a ''http://a.test'' ''https://x.com/b.jpg'' w'" for w'
    by (simp add: imageFetchFails_def site_def example_fetch_def)
  from failed_image_keeps_resolved_url[OF h1 h2, of "[2, 0, 1]" 0 w0] obtain w' where
    "imageFetchFails site draft_a ''http://a.test'' (absoluteImageUrls site draft_a ''http://a.test'' ! 1) w'
       \<longrightarrow> image_urls (fst (processProperty site [2, 0, 1] ''http://a.test'' 0 draft_a w0)) ! 1
             = absoluteImageUrls site draft_a ''http://a.test'' ! 1"
    by blast
  then have "image_urls (fst (processProperty site [2, 0, 1] ''http://a.test'' 0 draft_a w0)) ! 1
       = ''https://x.com/b.jpg''"
    using f by (simp add: c)
  then show ?thesis using h1 h2 f by (simp add: c)
qed

section \<open>C4: the image list is in candidate order\<close>

text \<open>
  Claim C4. For a record with a non-empty list of resolved candidates (non-empty strings),
  and for every completion order of its image tasks, \<open>image_urls\<close> has one entry per
  candidate and the entry at index \<open>i\<close> is the outcome of the task of candidate \<open>i\<close>.
  By \<open>completion_order_permutation\<close> every permutation of the task indices is such an
  order.
\<close>

theorem image_order_is_candidate_order:
  assumes "absoluteImageUrls P p ou \<noteq> []" and "[] \<notin> set (absoluteImageUrls P p ou)"
  shows "length (image_urls (fst (processProperty P order ou index p w)))
           = length (absoluteImageUrls P p ou)
       \<and> (\<forall>i<length (absoluteImageUrls P p ou).
            \<exists>w'. image_urls (fst (processProperty P order ou index p w)) ! i
                   = fst (processImage P p ou (id (fst (processProperty P order ou index p w))) i
                            (absoluteImageUrls P p ou ! i) w'))"
  unfolding image_urls_settled[OF assms] processProperty_id
  using settledImages_length settledImages_nth by blast

theorem image_order_is_candidate_order_witness:
  "absoluteImageUrls site draft_a ''http://a.test'' \<noteq> []
   \<and> [] \<notin> set (absoluteImageUrls site draft_a ''http://a.test'')
   \<and> length (image_urls (fst (processProperty site [2, 0, 1] ''http://a.test'' 0 draft_a w0))) = 3
   \<and> (\<exists>w'. image_urls (fst (processProperty site [2, 0, 1] ''http://a.test'' 0 draft_a w0)) ! 0
              = fst (processImage site draft_a ''http://a.test''
                   (id (fst (processProperty site [2, 0, 1] ''http://a.test'' 0 draft_a w0))) 0
                   ''https://x.com/a.png'' w'))
   \<and> (\<exists>w'. image_urls (fst (processProperty site [2, 0, 1] ''http://a.test'' 0 draft_a w0)) ! 1
              = fst (processImage site draft_a ''http://a.test''
                   (id (fst (processProperty site [2, 0, 1] ''http://a.test'' 0 draft_a w0))) 1
                   ''https://x.com/b.jpg'' w'))
   \<and> (\<exists>w'. image_urls (fst (processProperty site [2, 0, 1] ''http://a.test'' 0 draft_a w0)) ! 2
              = fst (processImage site draft_a ''http://a.test''
                   (id (fst (processProperty site [2, 0, 1] ''http://a.test'' 0 draft_a w0))) 2
                   ''https://x.com/listing/imgs/a.jpg'' w'))"
proof -
  let ?cs = "[''https://x.com/a.png'', ''https://x.com/b.jpg'', ''https://x.com/listing/imgs/a.jpg'']"
  let ?r = "fst (processProperty site [2, 0, 1] ''http://a.test'' 0 draft_a w0)"
  have c: "absoluteImageUrls site draft_a ''http://a.test'' = ?cs"
    by code_simp
  have h1: "absoluteImageUrls site draft_a ''http://a.test'' \<noteq> []" unfolding c by simp
  have h2: "[] \<notin> set (absoluteImageUrls site draft_a ''http://a.test'')" unfolding c by simp
  note t = image_order_is_candidate_order[OF h1 h2, of "[2, 0, 1]" 0 w0, unfolded c]
  from t have len: "length (image_urls ?r) = length ?cs" ..
  from t have each: "\<forall>i<length ?cs. \<exists>w'. image_urls ?r ! i
        = fst (processImage site draft_a ''http://a.test'' (id ?r) i (?cs ! i) w')" ..
  have l0: "0 < length ?cs" and l1: "1 < length ?cs" and l2: "2 < length ?cs" by simp_all
  have n0: "?cs ! 0 = ''https://x.com/a.png''" and n1: "?cs ! 1 = ''https://x.com/b.jpg''"
    and n2: "?cs ! 2 = ''https://x.com/listing/imgs/a.jpg''" by simp_all
  from each l0 have e0: "\<exists>w'. image_urls ?r ! 0
        = fst (processImage site draft_a ''http://a.test'' (id ?r) 0 (?cs ! 0) w')" by blast
  from each l1 have e1: "\<exists>w'. image_urls ?r ! 1
        = fst (processImage site draft_a ''http://a.test'' (id ?r) 1 (?cs ! 1) w')" by blast
  from each l2 have e2: "\<exists>w'. image_urls ?r ! 2
        = fst (processImage site draft_a ''http://a.test'' (id ?r) 2 (?cs ! 2) w')" by blast
  have len3: "length (image_urls ?r) = 3" using len by simp
  show ?thesis
    unfolding c using h1[unfolded c] h2[unfolded c] len3 e0[unfolded n0] e1[unfolded n1] e2[unfolded n2]
    by blast
qed

section \<open>C5: resolving a candidate\<close>

lemma isHttpUrl_nonempty: "isHttpUrl s \<Longrightarrow> s \<noteq> []"
  by (auto simp: isHttpUrl_def startsWith_def)

lemma baseUrlToUse_page:
  "draft.page_link p = Some l \<Longrightarrow> isHttpUrl l \<Longrightarrow> baseUrlToUse p ou = Some l"
  by (auto simp: baseUrlToUse_def dest: isHttpUrl_nonempty)

lemma baseUrlToUse_origin:
  "\<not> pageLinkAbsolute p \<Longrightarrow> isHttpUrl ou \<Longrightarrow> baseUrlToUse p ou = Some ou"
  by (cases "draft.page_link p") (auto simp: baseUrlToUse_def pageLinkAbsolute_def dest: isHttpUrl_nonempty)

lemma baseUrlToUse_none:
  "\<not> pageLinkAbsolute p \<Longrightarrow> \<not> isHttpUrl ou \<Longrightarrow> baseUrlToUse p ou = None"
  by (cases "draft.page_link p") (auto simp: baseUrlToUse_def pageLinkAbsolute_def)

lemma map_filter_concat:
  "List.map_filter f cs = concat (map (\<lambda>c. case f c of None \<Rightarrow> [] | Some u \<Rightarrow> [u]) cs)"
  by (induction cs) (auto simp: List.map_filter_simps split: option.splits)

lemma absoluteImageUrls_concat:
  "draft.image_urls p = Some cs \<Longrightarrow>
   absoluteImageUrls P p ou
     = concat (map (\<lambda>c. case resolveImageUrl P p ou c of None \<Rightarrow> [] | Some u \<Rightarrow> [u]) cs)"
  by (simp add: absoluteImageUrls_def map_filter_concat)

text \<open>
  Claim C5, as the source has it. A candidate that is not a string or is empty is
  skipped. One that starts with \<open>http://\<close> or \<open>https://\<close> goes through the URL
  constructor with no base and its \<open>href\<close> is used: the candidate itself when it is
  already in that form, nothing when the constructor rejects it. Any other candidate is
  resolved against the draft's page link when that is absolute, else against the job's
  origin URL when that is absolute, and is dropped when neither is or when the constructor
  rejects it. The list of resolved candidates keeps the results in order and leaves the
  dropped ones out.
\<close>

theorem resolveImageUrl_cases:
  "resolveImageUrl P p ou NotString = None
   \<and> resolveImageUrl P p ou (Str []) = None
   \<and> (isHttpUrl s \<longrightarrow> resolveImageUrl P p ou (Str s) = hrefOrNull (new_URL P s None))
   \<and> (isHttpUrl s \<and> new_URL P s None = Inr u \<and> href u = s \<longrightarrow>
        resolveImageUrl P p ou (Str s) = Some s)
   \<and> (s \<noteq> [] \<and> \<not> isHttpUrl s \<and> draft.page_link p = Some l \<and> isHttpUrl l \<longrightarrow>
        resolveImageUrl P p ou (Str s) = hrefOrNull (new_URL P s (Some l)))
   \<and> (s \<noteq> [] \<and> \<not> isHttpUrl s \<and> \<not> pageLinkAbsolute p \<and> isHttpUrl ou \<longrightarrow>
        resolveImageUrl P p ou (Str s) = hrefOrNull (new_URL P s (Some ou)))
   \<and> (\<not> isHttpUrl s \<and> \<not> pageLinkAbsolute p \<and> \<not> isHttpUrl ou \<longrightarrow>
        resolveImageUrl P p ou (Str s) = None)
   \<and> (draft.image_urls p = Some cs \<longrightarrow>
        absoluteImageUrls P p ou
          = concat (map (\<lambda>c. case resolveImageUrl P p ou c of None \<Rightarrow> [] | Some u \<Rightarrow> [u]) cs))"
proof -
  have a: "isHttpUrl s \<Longrightarrow> resolveImageUrl P p ou (Str s) = hrefOrNull (new_URL P s None)"
    by (auto simp: resolveImageUrl_def dest: isHttpUrl_nonempty)
  have b: "isHttpUrl s \<Longrightarrow> new_URL P s None = Inr u \<Longrightarrow> href u = s \<Longrightarrow>
        resolveImageUrl P p ou (Str s) = Some s"
    by (simp add: a hrefOrNull_def)
  have c: "s \<noteq> [] \<Longrightarrow> \<not> isHttpUrl s \<Longrightarrow> draft.page_link p = Some l \<Longrightarrow> isHttpUrl l \<Longrightarrow>
        resolveImageUrl P p ou (Str s) = hrefOrNull (new_URL P s (Some l))"
    by (simp add: resolveImageUrl_def baseUrlToUse_page isHttpUrl_nonempty)
  have d: "s \<noteq> [] \<Longrightarrow> \<not> isHttpUrl s \<Longrightarrow> \<not> pageLinkAbsolute p \<Longrightarrow> isHttpUrl ou \<Longrightarrow>
        resolveImageUrl P p ou (Str s) = hrefOrNull (new_URL P s (Some ou))"
    by (simp add: resolveImageUrl_def baseUrlToUse_origin isHttpUrl_nonempty)
  have e: "\<not> isHttpUrl s \<Longrightarrow> \<not> pageLinkAbsolute p \<Longrightarrow> \<not> isHttpUrl ou \<Longrightarrow>
        resolveImageUrl P p ou (Str s) = None"
    by (simp add: resolveImageUrl_def baseUrlToUse_none)
  have f: "resolveImageUrl P p ou NotString = None" "resolveImageUrl P p ou (Str []) = None"
    by (simp_all add: resolveImageUrl_def)
  show ?thesis using a b c d e f absoluteImageUrls_concat by blast
qed

theorem resolveImageUrl_cases_witness:
  "\<not> isHttpUrl ''imgs/a.jpg''
   \<and> draft.page_link draft_a = Some ''https://x.com/listing/5''
   \<and> isHttpUrl ''https://x.com/listing/5''
   \<and> resolveImageUrl site draft_a ''http://a.test'' (Str ''imgs/a.jpg'')
       = Some ''https://x.com/listing/imgs/a.jpg''
   \<and> \<not> pageLinkAbsolute draft_rel \<and> isHttpUrl ''http://a.test''
   \<and> resolveImageUrl site draft_rel ''http://a.test'' (Str ''imgs/a.jpg'')
       = Some ''http://a.test/imgs/a.jpg''
   \<and> \<not> isHttpUrl ''scraped-from-html''
   \<and> resolveImageUrl site draft_rel ''scraped-from-html'' (Str ''imgs/a.jpg'') = None
   \<and> isHttpUrl ''https://x.com/a.png''
   \<and> resolveImageUrl site draft_a ''http://a.test'' (Str ''https://x.com/a.png'')
       = Some ''https://x.com/a.png''
   \<and> absoluteImageUrls site draft_a ''http://a.test''
       = [''https://x.com/a.png'', ''https://x.com/b.jpg'', ''https://x.com/listing/imgs/a.jpg'']"
proof -
  have rel: "''imgs/a.jpg'' \<noteq> []" "\<not> isHttpUrl ''imgs/a.jpg''"
    by (simp_all add: isHttpUrl_def startsWith_def)
  have pl: "draft.page_link draft_a = Some ''https://x.com/listing/5''"
    "isHttpUrl ''https://x.com/listing/5''"
    by (simp_all add: draft_a_def isHttpUrl_def startsWith_def)
  have npl: "\<not> pageLinkAbsolute draft_rel"
    by (simp add: pageLinkAbsolute_def draft_rel_def isHttpUrl_def startsWith_def)
  have og: "isHttpUrl ''http://a.test''" "\<not> isHttpUrl ''scraped-from-html''"
    by (simp_all add: isHttpUrl_def startsWith_def)
  have ab: "isHttpUrl ''https://x.com/a.png''"
    by (simp add: isHttpUrl_def startsWith_def)
  have u: "new_URL site ''https://x.com/a.png'' None
      = Inr \<lparr>href = ''https://x.com/a.png'', protocol = ''https:'', pathname = ''/a.png''\<rparr>"
    by (simp add: site_def example_URL_def url_table_def)
  have cs: "draft.image_urls draft_a
      = Some [Str ''https://x.com/a.png'', Str ''https://x.com/b.jpg'', Str ''imgs/a.jpg'', Str [], NotString]"
    by (simp add: draft_a_def)
  have 1: "resolveImageUrl site draft_a ''http://a.test'' (Str ''imgs/a.jpg'')
       = hrefOrNull (new_URL site ''imgs/a.jpg'' (Some ''https://x.com/listing/5''))"
    using resolveImageUrl_cases[of site draft_a "''http://a.test''" "''imgs/a.jpg''" _
        "''https://x.com/listing/5''"] rel pl by blast
  have 2: "resolveImageUrl site draft_rel ''http://a.test'' (Str ''imgs/a.jpg'')
       = hrefOrNull (new_URL site ''imgs/a.jpg'' (Some ''http://a.test''))"
    using resolveImageUrl_cases[of site draft_rel "''http://a.test''" "''imgs/a.jpg''"] rel npl og
    by blast
  have 3: "resolveImageUrl site draft_rel ''scraped-from-html'' (Str ''imgs/a.jpg'') = None"
    using resolveImageUrl_cases[of site draft_rel "''scraped-from-html''" "''imgs/a.jpg''"] rel npl og
    by blast
  have 4: "resolveImageUrl site draft_a ''http://a.test'' (Str ''https://x.com/a.png'')
       = Some ''https://x.com/a.png''"
    using resolveImageUrl_cases[of site draft_a "''http://a.test''" "''https://x.com/a.png''"
        "\<lparr>href = ''https://x.com/a.png'', protocol = ''https:'', pathname = ''/a.png''\<rparr>"] ab u
    by (simp add: hrefOrNull_def)
  have 5: "absoluteImageUrls site draft_a ''http://a.test''
      = concat (map (\<lambda>c. case resolveImageUrl site draft_a ''http://a.test'' c of
                            None \<Rightarrow> [] | Some u \<Rightarrow> [u])
          [Str ''https://x.com/a.png'', Str ''https://x.com/b.jpg'', Str ''imgs/a.jpg'', Str [], NotString])"
    using resolveImageUrl_cases[of site draft_a "''http://a.test''" _ _ _
        "[Str ''https://x.com/a.png'', Str ''https://x.com/b.jpg'', Str ''imgs/a.jpg'', Str [], NotString]"] cs
    by blast
  have 6: "resolveImageUrl site draft_a ''http://a.test'' (Str ''https://x.com/b.jpg'')
       = Some ''https://x.com/b.jpg''"
    by (simp add: isHttpUrl_def startsWith_def resolveImageUrl_def hrefOrNull_def site_def
      example_URL_def url_table_def)
  have 7: "resolveImageUrl site draft_a ''http://a.test'' (Str []) = None"
    "resolveImageUrl site draft_a ''http://a.test'' NotString = None"
    using resolveImageUrl_cases[of site draft_a "''http://a.test''"] by blast+
  have p5: "resolveImageUrl site draft_a ''http://a.test'' (Str ''imgs/a.jpg'')
       = Some ''https://x.com/listing/imgs/a.jpg''"
    unfolding 1 by (simp add: hrefOrNull_def site_def example_URL_def url_table_def)
  have viaOrigin: "resolveImageUrl site draft_rel ''http://a.test'' (Str ''imgs/a.jpg'')
       = Some ''http://a.test/imgs/a.jpg''"
    unfolding 2 by (simp add: hrefOrNull_def site_def example_URL_def url_table_def)
  show ?thesis
    unfolding 5 using rel pl npl og ab p5 viaOrigin 3 4 6 7 by simp
qed

text \<open>
  Claim C5 as stated says that a candidate starting with \<open>http://\<close> or \<open>https://\<close> is
  used as it is. The source returns \<open>new URL(imgUrl).href\<close>: \<open>https://x.com\<close> becomes
  \<open>https://x.com/\<close>, and \<open>http://\<close>, which the constructor rejects, is dropped.
\<close>

theorem absolute_candidate_not_as_is_counterexample:
  "isHttpUrl ''https://x.com''
   \<and> resolveImageUrl site draft_a ''http://a.test'' (Str ''https://x.com'') = Some ''https://x.com/''
   \<and> resolveImageUrl site draft_a ''http://a.test'' (Str ''https://x.com'') \<noteq> Some ''https://x.com''
   \<and> isHttpUrl ''http://''
   \<and> resolveImageUrl site draft_a ''http://a.test'' (Str ''http://'') = None"
  by (simp add: isHttpUrl_def startsWith_def resolveImageUrl_def hrefOrNull_def site_def
      example_URL_def url_table_def)

section \<open>C10: pasted HTML without an origin URL\<close>

lemma absoluteImageUrls_candidates:
  "absoluteImageUrls P p ou = List.map_filter (resolveImageUrl P p ou) (candidatesOf p)"
  by (simp add: absoluteImageUrls_def candidatesOf_def List.map_filter_simps split: option.splits)

lemma map_filter_filter:
  "(\<And>x. \<not> Q x \<Longrightarrow> f x = None) \<Longrightarrow> List.map_filter f (filter Q xs) = List.map_filter f xs"
  by (induction xs) (auto simp: List.map_filter_simps split: option.splits)

lemma map_filter_all_None:
  "(\<And>x. x \<in> set xs \<Longrightarrow> f x = None) \<Longrightarrow> List.map_filter f xs = []"
  by (induction xs) (auto simp: List.map_filter_simps)

lemma not_http_default_origin: "\<not> isHttpUrl ''scraped-from-html''"
  by (simp add: isHttpUrl_def startsWith_def)

lemma relative_dropped_without_base:
  assumes "\<not> pageLinkAbsolute p" and "\<not> isHttpUrl ou" and "\<not> isAbsoluteCandidate c"
  shows "resolveImageUrl P p ou c = None"
proof (cases c)
  case (Str s)
  then show ?thesis using assms by (simp add: resolveImageUrl_def baseUrlToUse_none)
next
  case NotString
  then show ?thesis by (simp add: resolveImageUrl_def)
qed

lemma scrapeHtml_accepts:
  assumes "100 \<le> length html"
  shows "scrapeHtml P S html originalUrlArg w =
     (Inr (fst (processScrapedData P S (fst (extractPropertyInfo P html w))
                 (case originalUrlArg of None \<Rightarrow> ''scraped-from-html'' | Some u \<Rightarrow> u)
                 (HTML, ''Pasted HTML content'') (snd (extractPropertyInfo P html w)))),
      snd (processScrapedData P S (fst (extractPropertyInfo P html w))
                 (case originalUrlArg of None \<Rightarrow> ''scraped-from-html'' | Some u \<Rightarrow> u)
                 (HTML, ''Pasted HTML content'') (snd (extractPropertyInfo P html w))))"
proof -
  have "html \<noteq> []" using assms by auto
  moreover have "\<not> length html < 100" using assms by simp
  ultimately show ?thesis by (simp add: scrapeHtml_def Let_def split_beta)
qed

lemma processProperty_original_url:
  "original_url (fst (processProperty P order ou index p w)) = ou"
  by (simp add: processProperty_def Let_def split_beta)

text \<open>
  Claim C10. \<open>scrapeHtml\<close> called without \<open>originalUrl\<close> on HTML it accepts processes
  the drafts with the origin \<open>scraped-from-html\<close>, which is not an http(s) URL. For a
  draft whose page link is not absolute either, every candidate that is not already an
  absolute http(s) URL resolves to nothing, the resolved list comes from the absolute
  candidates alone, and a record with no absolute candidate gets the placeholder as its
  only image.
\<close>

theorem default_origin_drops_relative_candidates:
  assumes "100 \<le> length html"
    and "k < length (fst (extractPropertyInfo P html w))"
    and "\<not> pageLinkAbsolute (fst (extractPropertyInfo P html w) ! k)"
  shows "\<exists>ps w'. scrapeHtml P S html None w = (Inr ps, w')
      \<and> length ps = length (fst (extractPropertyInfo P html w))
      \<and> original_url (ps ! k) = ''scraped-from-html''
      \<and> (\<forall>c. \<not> isAbsoluteCandidate c \<longrightarrow>
            resolveImageUrl P (fst (extractPropertyInfo P html w) ! k) ''scraped-from-html'' c = None)
      \<and> absoluteImageUrls P (fst (extractPropertyInfo P html w) ! k) ''scraped-from-html''
          = List.map_filter
              (resolveImageUrl P (fst (extractPropertyInfo P html w) ! k) ''scraped-from-html'')
              (filter isAbsoluteCandidate (candidatesOf (fst (extractPropertyInfo P html w) ! k)))
      \<and> ((\<forall>c \<in> set (candidatesOf (fst (extractPropertyInfo P html w) ! k)). \<not> isAbsoluteCandidate c)
            \<longrightarrow> image_urls (ps ! k) = [placeholder])"
proof -
  let ?drafts = "fst (extractPropertyInfo P html w)"
  let ?w1 = "snd (extractPropertyInfo P html w)"
  let ?d = "?drafts ! k"
  let ?o = "''scraped-from-html''"
  let ?ps = "fst (processScrapedData P S ?drafts ?o (HTML, ''Pasted HTML content'') ?w1)"
  let ?w' = "snd (processScrapedData P S ?drafts ?o (HTML, ''Pasted HTML content'') ?w1)"
  have run: "scrapeHtml P S html None w = (Inr ?ps, ?w')"
    using scrapeHtml_accepts[OF assms(1), of P S None w] by simp
  have len: "length ?ps = length ?drafts" by (rule processScrapedData_length)
  from processScrapedData_nth[OF assms(2), of P S ?o "(HTML, ''Pasted HTML content'')" ?w1]
  obtain w2 where r: "?ps ! k = fst (processProperty P (image_order S k) ?o k ?d w2)" ..
  have ou: "original_url (?ps ! k) = ?o" unfolding r by (rule processProperty_original_url)
  have drop: "\<not> isAbsoluteCandidate c \<Longrightarrow> resolveImageUrl P ?d ?o c = None" for c
    using assms(3) not_http_default_origin by (rule relative_dropped_without_base)
  have only: "absoluteImageUrls P ?d ?o
      = List.map_filter (resolveImageUrl P ?d ?o) (filter isAbsoluteCandidate (candidatesOf ?d))"
    unfolding absoluteImageUrls_candidates using drop by (simp add: map_filter_filter)
  have sentinel: "image_urls (?ps ! k) = [placeholder]"
    if "\<forall>c \<in> set (candidatesOf ?d). \<not> isAbsoluteCandidate c"
  proof -
    have "absoluteImageUrls P ?d ?o = []"
      unfolding absoluteImageUrls_candidates using that drop by (simp add: map_filter_all_None)
    then show ?thesis unfolding r by (rule processProperty_sentinel)
  qed
  show ?thesis using run len ou drop only sentinel by blast
qed

theorem default_origin_drops_relative_candidates_witness:
  "(100::nat) \<le> length html_pasted
   \<and> (0::nat) < length (fst (extractPropertyInfo site html_pasted w0))
   \<and> \<not> pageLinkAbsolute (fst (extractPropertyInfo site html_pasted w0) ! 0)
   \<and> filter isAbsoluteCandidate (candidatesOf (fst (extractPropertyInfo site html_pasted w0) ! 0)) = []
   \<and> (\<exists>ps w'. scrapeHtml site last_first html_pasted None w0 = (Inr ps, w')
         \<and> original_url (ps ! 0) = ''scraped-from-html''
         \<and> image_urls (ps ! 0) = [placeholder])"
proof -
  have d: "fst (extractPropertyInfo site html_pasted w0) = [draft_rel]"
    by code_simp
  have h1: "(100::nat) \<le> length html_pasted" by (simp add: html_pasted_def)
  have h2: "(0::nat) < length (fst (extractPropertyInfo site html_pasted w0))" by (simp add: d)
  have h3: "\<not> pageLinkAbsolute (fst (extractPropertyInfo site html_pasted w0) ! 0)"
    by (simp add: d pageLinkAbsolute_def draft_rel_def isHttpUrl_def startsWith_def)
  have h4: "\<forall>c \<in> set (candidatesOf (fst (extractPropertyInfo site html_pasted w0) ! 0)). \<not> isAbsoluteCandidate c"
    by (simp add: d candidatesOf_def draft_rel_def isHttpUrl_def startsWith_def)
  have h5: "filter isAbsoluteCandidate (candidatesOf (fst (extractPropertyInfo site html_pasted w0) ! 0)) = []"
    using h4 by (simp add: filter_empty_conv)
  from default_origin_drops_relative_candidates[OF h1 h2 h3, of last_first] h1 h2 h3 h4 h5
  show ?thesis by blast
qed

section \<open>C9: validation comes before any request\<close>

text \<open>
  Claim C9. When \<open>new URL(url)\<close> throws or the protocol is neither \<open>http:\<close> nor
  \<open>https:\<close>, \<open>scrapeUrl\<close> throws its \<open>Invalid URL provided\<close> error and the world is
  unchanged: no fetch was sent. When the HTML is empty or shorter than 100, \<open>scrapeHtml\<close>
  throws \<open>Invalid HTML provided.\<close> and the world is unchanged: no extraction was asked.
\<close>

theorem invalid_input_rejected_before_any_request:
  "((case new_URL P u None of
       Inl e \<Rightarrow> True
     | Inr parsedUrl \<Rightarrow> protocol parsedUrl \<noteq> ''http:'' \<and> protocol parsedUrl \<noteq> ''https:'')
     \<longrightarrow> (\<exists>m. scrapeUrl P S u w = (Inl (Error m), w) \<and> startsWith m ''Invalid URL provided''))
   \<and> (html = [] \<or> length html < 100
     \<longrightarrow> scrapeHtml P S html originalUrlArg w = (Inl (Error ''Invalid HTML provided.''), w))"
  by (auto simp: scrapeUrl_def validateUrl_def scrapeHtml_def Let_def startsWith_def split: sum.splits)

theorem invalid_input_rejected_before_any_request_witness:
  "new_URL site ''not a url'' None = Inl (Error ''Invalid URL'')
   \<and> (\<exists>m. scrapeUrl site last_first ''not a url'' w0 = (Inl (Error m), w0)
          \<and> startsWith m ''Invalid URL provided'')
   \<and> protocol \<lparr>href = ''ftp://x.com/f'', protocol = ''ftp:'', pathname = ''/f''\<rparr> = ''ftp:''
   \<and> (\<exists>m. scrapeUrl site last_first ''ftp://x.com/f'' w0 = (Inl (Error m), w0)
          \<and> startsWith m ''Invalid URL provided'')
   \<and> length (replicate 50 (CHR ''x'')) < 100
   \<and> scrapeHtml site last_first (replicate 50 (CHR ''x'')) None w0
       = (Inl (Error ''Invalid HTML provided.''), w0)"
proof -
  have a: "new_URL site ''not a url'' None = Inl (Error ''Invalid URL'')"
    by (simp add: site_def example_URL_def url_table_def)
  have b: "new_URL site ''ftp://x.com/f'' None
      = Inr \<lparr>href = ''ftp://x.com/f'', protocol = ''ftp:'', pathname = ''/f''\<rparr>"
    by (simp add: site_def example_URL_def url_table_def)
  have c: "length (replicate 50 (CHR ''x'')) < 100" by simp
  from invalid_input_rejected_before_any_request[of site "''not a url''" last_first w0] a
  have 1: "\<exists>m. scrapeUrl site last_first ''not a url'' w0 = (Inl (Error m), w0)
          \<and> startsWith m ''Invalid URL provided''" by simp
  from invalid_input_rejected_before_any_request[of site "''ftp://x.com/f''" last_first w0] b
  have 2: "\<exists>m. scrapeUrl site last_first ''ftp://x.com/f'' w0 = (Inl (Error m), w0)
          \<and> startsWith m ''Invalid URL provided''" by simp
  from invalid_input_rejected_before_any_request[where html = "replicate 50 (CHR ''x'')"
      and P = site and S = last_first and originalUrlArg = None and w = w0] c
  have 3: "scrapeHtml site last_first (replicate 50 (CHR ''x'')) None w0
       = (Inl (Error ''Invalid HTML provided.''), w0)" by blast
  show ?thesis using a 1 2 3 by simp
qed

section \<open>Lemmas on what changes the world\<close>

lemma issue_history: "history (issue r w) = history w"
  by (simp add: issue_def)

lemma issue_enhanceCalls: "\<not> isEnhancePrompt r \<Longrightarrow> enhanceCalls (issue r w) = enhanceCalls w"
  by (simp add: issue_def enhanceCalls_def)

lemma getHtml_history: "history (snd (getHtml P u w)) = history w"
  by (simp add: getHtml_def Let_def issue_history split: sum.splits thrown.splits)

lemma extractPropertyInfo_history: "history (snd (extractPropertyInfo P html w)) = history w"
  by (simp add: extractPropertyInfo_def issue_history split: sum.splits option.splits)

lemma persistImage_history: "history (snd (persistImage P pid i ext buf w)) = history w"
  by (simp add: persistImage_def Let_def issue_history split: sum.splits)

lemma persistImage_enhanceCalls: "enhanceCalls (snd (persistImage P pid i ext buf w)) = enhanceCalls w"
  by (simp add: persistImage_def Let_def issue_enhanceCalls split: sum.splits)

lemma fetchAndPersist_history: "history (snd (fetchAndPersist P p ou pid i u w)) = history w"
  by (simp add: fetchAndPersist_def Let_def issue_history persistImage_history split: sum.splits)

lemma fetchAndPersist_enhanceCalls:
  "enhanceCalls (snd (fetchAndPersist P p ou pid i u w)) = enhanceCalls w"
  by (simp add: fetchAndPersist_def Let_def issue_enhanceCalls persistImage_enhanceCalls split: sum.splits)

lemma processImage_world: "snd (processImage P p ou pid i u w) = snd (fetchAndPersist P p ou pid i u w)"
  by (simp add: processImage_def split: prod.splits sum.splits)

lemma processImage_history: "history (snd (processImage P p ou pid i u w)) = history w"
  by (simp add: processImage_world fetchAndPersist_history)

lemma processImage_enhanceCalls: "enhanceCalls (snd (processImage P p ou pid i u w)) = enhanceCalls w"
  by (simp add: processImage_world fetchAndPersist_enhanceCalls)

lemma afterImages_history: "history (afterImages P order ou index p w) = history w"
  unfolding afterImages_def
  by (rule Promise_all_preserves) (simp add: nth_enumerate_eq processImage_history)

lemma afterImages_enhanceCalls: "enhanceCalls (afterImages P order ou index p w) = enhanceCalls w"
  unfolding afterImages_def
  by (rule Promise_all_preserves) (simp add: nth_enumerate_eq processImage_enhanceCalls)

lemma enhancePropertyContent_history: "history (snd (enhancePropertyContent P t d w)) = history w"
  by (simp add: enhancePropertyContent_def issue_history split: sum.splits prod.splits)

lemma processProperty_world:
  "snd (processProperty P order ou index p w)
     = snd (enhancePropertyContent P (orElse (draft.title p) []) (orElse (draft.description p) [])
              (afterImages P order ou index p w))"
  by (simp add: processProperty_def afterImages_def propertyIdAt_def Let_def split_beta)

lemma processProperty_enhanced:
  "title (fst (processProperty P order ou index p w))
     = enhancedTitle (fst (enhancePropertyContent P (orElse (draft.title p) [])
          (orElse (draft.description p) []) (afterImages P order ou index p w)))
   \<and> description (fst (processProperty P order ou index p w))
     = enhancedDescription (fst (enhancePropertyContent P (orElse (draft.title p) [])
          (orElse (draft.description p) []) (afterImages P order ou index p w)))"
  by (simp add: processProperty_def afterImages_def propertyIdAt_def Let_def split_beta)

lemma processProperty_history: "history (snd (processProperty P order ou index p w)) = history w"
  by (simp add: processProperty_world enhancePropertyContent_history afterImages_history)

lemma processScrapedData_history:
  "history (snd (processScrapedData P S drafts ou he w))
     = history w @ [\<lparr>type = fst he, details = snd he,
                      propertyCount = length (fst (processScrapedData P S drafts ou he w))\<rparr>]"
proof -
  let ?tasks = "map (\<lambda>(index, p). processProperty P (image_order S index) ou index p) (enumerate 0 drafts)"
  have "history (snd (Promise_all ?tasks (record_order S) w)) = history w"
    by (rule Promise_all_preserves) (simp add: nth_enumerate_eq processProperty_history)
  then show ?thesis
    by (simp add: processScrapedData_def Let_def split_beta saveHistoryEntry_def)
qed

lemma scrapeUrl_accepts:
  assumes "validateUrl P u = Inr ()" and "fst (getHtml P u w) = Inr html"
  shows "scrapeUrl P S u w =
     (Inr (fst (processScrapedData P S (fst (extractPropertyInfo P html (snd (getHtml P u w)))) u (URL, u)
                 (snd (extractPropertyInfo P html (snd (getHtml P u w)))))),
      snd (processScrapedData P S (fst (extractPropertyInfo P html (snd (getHtml P u w)))) u (URL, u)
                 (snd (extractPropertyInfo P html (snd (getHtml P u w))))))"
proof -
  obtain w1 where g: "getHtml P u w = (Inr html, w1)"
    using assms(2) by (cases "getHtml P u w") auto
  show ?thesis by (simp add: scrapeUrl_def assms(1) g Let_def split_beta)
qed

section \<open>C8: one history entry per job\<close>

text \<open>
  Claim C8. A \<open>scrapeUrl\<close> job whose URL is valid and whose page was fetched, and a
  \<open>scrapeHtml\<close> job whose HTML has at least 100 characters, return their records, as
  many as the extractor returned drafts, and leave the history longer by exactly one
  entry, of the job's kind and details, whose \<open>propertyCount\<close> is the number of records
  returned. With no draft the job returns the empty list and the entry counts 0.
\<close>

theorem one_history_entry_per_job:
  "(validateUrl P u = Inr () \<and> fst (getHtml P u w) = Inr fetched \<longrightarrow>
      (\<exists>ps w'. scrapeUrl P S u w = (Inr ps, w')
         \<and> length ps = length (fst (extractPropertyInfo P fetched (snd (getHtml P u w))))
         \<and> history w' = history w @ [\<lparr>type = URL, details = u, propertyCount = length ps\<rparr>]))
   \<and> (100 \<le> length html \<longrightarrow>
      (\<exists>ps w'. scrapeHtml P S html originalUrlArg w = (Inr ps, w')
         \<and> length ps = length (fst (extractPropertyInfo P html w))
         \<and> history w' = history w
              @ [\<lparr>type = HTML, details = ''Pasted HTML content'', propertyCount = length ps\<rparr>]))"
proof (intro conjI impI)
  assume a: "validateUrl P u = Inr () \<and> fst (getHtml P u w) = Inr fetched"
  let ?w1 = "snd (getHtml P u w)"
  let ?drafts = "fst (extractPropertyInfo P fetched ?w1)"
  let ?w2 = "snd (extractPropertyInfo P fetched ?w1)"
  let ?ps = "fst (processScrapedData P S ?drafts u (URL, u) ?w2)"
  let ?w' = "snd (processScrapedData P S ?drafts u (URL, u) ?w2)"
  have run: "scrapeUrl P S u w = (Inr ?ps, ?w')"
    using a scrapeUrl_accepts by blast
  have len: "length ?ps = length ?drafts" by (rule processScrapedData_length)
  have "history ?w' = history ?w2 @ [\<lparr>type = URL, details = u, propertyCount = length ?ps\<rparr>]"
    using processScrapedData_history[of P S ?drafts u "(URL, u)" ?w2] by simp
  then have hist: "history ?w' = history w @ [\<lparr>type = URL, details = u, propertyCount = length ?ps\<rparr>]"
    by (simp add: extractPropertyInfo_history getHtml_history)
  show "\<exists>ps w'. scrapeUrl P S u w = (Inr ps, w')
         \<and> length ps = length ?drafts
         \<and> history w' = history w @ [\<lparr>type = URL, details = u, propertyCount = length ps\<rparr>]"
    using run len hist by blast
next
  assume a: "100 \<le> length html"
  let ?o = "case originalUrlArg of None \<Rightarrow> ''scraped-from-html'' | Some u \<Rightarrow> u"
  let ?drafts = "fst (extractPropertyInfo P html w)"
  let ?w1 = "snd (extractPropertyInfo P html w)"
  let ?ps = "fst (processScrapedData P S ?drafts ?o (HTML, ''Pasted HTML content'') ?w1)"
  let ?w' = "snd (processScrapedData P S ?drafts ?o (HTML, ''Pasted HTML content'') ?w1)"
  have run: "scrapeHtml P S html originalUrlArg w = (Inr ?ps, ?w')"
    using a by (rule scrapeHtml_accepts)
  have len: "length ?ps = length ?drafts" by (rule processScrapedData_length)
  have "history ?w' = history ?w1
      @ [\<lparr>type = HTML, details = ''Pasted HTML content'', propertyCount = length ?ps\<rparr>]"
    using processScrapedData_history[of P S ?drafts ?o "(HTML, ''Pasted HTML content'')" ?w1] by simp
  then have hist: "history ?w' = history w
      @ [\<lparr>type = HTML, details = ''Pasted HTML content'', propertyCount = length ?ps\<rparr>]"
    by (simp add: extractPropertyInfo_history)
  show "\<exists>ps w'. scrapeHtml P S html originalUrlArg w = (Inr ps, w')
         \<and> length ps = length ?drafts
         \<and> history w' = history w
              @ [\<lparr>type = HTML, details = ''Pasted HTML content'', propertyCount = length ps\<rparr>]"
    using run len hist by blast
qed

theorem one_history_entry_per_job_witness:
  "validateUrl site ''http://a.test'' = Inr ()
   \<and> fst (getHtml site ''http://a.test'' w0) = Inr html_a
   \<and> (\<exists>ps w'. scrapeUrl site last_first ''http://a.test'' w0 = (Inr ps, w')
         \<and> length ps = 1
         \<and> history w' = [\<lparr>type = URL, details = ''http://a.test'', propertyCount = 1\<rparr>])
   \<and> (100::nat) \<le> length html_empty
   \<and> fst (extractPropertyInfo site html_empty w0) = []
   \<and> (\<exists>w'. scrapeHtml site last_first html_empty None w0 = (Inr [], w')
         \<and> history w' = [\<lparr>type = HTML, details = ''Pasted HTML content'', propertyCount = 0\<rparr>])"
proof -
  have v: "validateUrl site ''http://a.test'' = Inr ()"
    by (simp add: validateUrl_def site_def example_URL_def url_table_def)
  have g: "fst (getHtml site ''http://a.test'' w0) = Inr html_a"
    by (simp add: getHtml_def Let_def site_def example_fetch_def)
  have x: "fst (extractPropertyInfo site html_a (snd (getHtml site ''http://a.test'' w0))) = [draft_a]"
    by (simp add: extractPropertyInfo_def site_def example_extract_def split: sum.splits)
  have l: "(100::nat) \<le> length html_empty" by (simp add: html_empty_def)
  have e: "fst (extractPropertyInfo site html_empty w0) = []" by code_simp
  have h0: "history w0 = []" by (simp add: w0_def)
  from one_history_entry_per_job[of site "''http://a.test''" w0 html_a last_first] v g
  obtain ps w' where r: "scrapeUrl site last_first ''http://a.test'' w0 = (Inr ps, w')"
      "length ps = length (fst (extractPropertyInfo site html_a (snd (getHtml site ''http://a.test'' w0))))"
      "history w' = history w0 @ [\<lparr>type = URL, details = ''http://a.test'', propertyCount = length ps\<rparr>]"
    by blast
  have n: "length ps = 1" using r(2) x by simp
  have "history w' = [\<lparr>type = URL, details = ''http://a.test'', propertyCount = 1\<rparr>]"
    using r(3) by (simp add: h0 n)
  with r(1) n have 1: "\<exists>ps w'. scrapeUrl site last_first ''http://a.test'' w0 = (Inr ps, w')
         \<and> length ps = 1
         \<and> history w' = [\<lparr>type = URL, details = ''http://a.test'', propertyCount = 1\<rparr>]"
    by blast
  from one_history_entry_per_job[where html = html_empty and P = site and S = last_first
      and originalUrlArg = None and w = w0] l
  obtain qs v' where q: "scrapeHtml site last_first html_empty None w0 = (Inr qs, v')"
      "length qs = length (fst (extractPropertyInfo site html_empty w0))"
      "history v' = history w0
         @ [\<lparr>type = HTML, details = ''Pasted HTML content'', propertyCount = length qs\<rparr>]"
    by blast
  have qn: "qs = []" using q(2) e by simp
  have "history v' = [\<lparr>type = HTML, details = ''Pasted HTML content'', propertyCount = 0\<rparr>]"
    using q(3) by (simp add: h0 qn)
  with q(1) qn have 2: "\<exists>w'. scrapeHtml site last_first html_empty None w0 = (Inr [], w')
         \<and> history w' = [\<lparr>type = HTML, details = ''Pasted HTML content'', propertyCount = 0\<rparr>]"
    by blast
  show ?thesis using v g 1 l e 2 by blast
qed

section \<open>C7: the enhancement never fails a record\<close>

text \<open>
  Claim C7. \<open>processProperty\<close> hands the enhancer the defaulted title and description.
  When either is empty the finalized record carries them as they are and no request was
  sent to the enhancement service; when the service call throws, the record carries them
  as they are as well.
\<close>

theorem enhancement_skipped_or_passed_through:
  "(orElse (draft.title p) [] = [] \<or> orElse (draft.description p) [] = [] \<longrightarrow>
      title (fst (processProperty P order ou index p w)) = orElse (draft.title p) []
      \<and> description (fst (processProperty P order ou index p w)) = orElse (draft.description p) []
      \<and> enhanceCalls (snd (processProperty P order ou index p w)) = enhanceCalls w)
   \<and> (isl (enhance_prompt P (afterImages P order ou index p w)
              (orElse (draft.title p) []) (orElse (draft.description p) [])) \<longrightarrow>
      title (fst (processProperty P order ou index p w)) = orElse (draft.title p) []
      \<and> description (fst (processProperty P order ou index p w)) = orElse (draft.description p) [])"
proof (intro conjI impI)
  let ?t = "orElse (draft.title p) []" and ?d = "orElse (draft.description p) []"
  let ?w1 = "afterImages P order ou index p w"
  assume skip: "?t = [] \<or> ?d = []"
  then have e: "enhancePropertyContent P ?t ?d ?w1 = (\<lparr>enhancedTitle = ?t, enhancedDescription = ?d\<rparr>, ?w1)"
    by (auto simp: enhancePropertyContent_def)
  show "title (fst (processProperty P order ou index p w)) = ?t"
    using processProperty_enhanced[of P order ou index p w] by (simp add: e)
  show "description (fst (processProperty P order ou index p w)) = ?d"
    using processProperty_enhanced[of P order ou index p w] by (simp add: e)
  show "enhanceCalls (snd (processProperty P order ou index p w)) = enhanceCalls w"
    by (simp add: processProperty_world e afterImages_enhanceCalls)
next
  let ?t = "orElse (draft.title p) []" and ?d = "orElse (draft.description p) []"
  let ?w1 = "afterImages P order ou index p w"
  assume "isl (enhance_prompt P ?w1 ?t ?d)"
  then have e: "fst (enhancePropertyContent P ?t ?d ?w1) = \<lparr>enhancedTitle = ?t, enhancedDescription = ?d\<rparr>"
    by (auto simp: enhancePropertyContent_def isl_def)
  show "title (fst (processProperty P order ou index p w)) = ?t"
    using processProperty_enhanced[of P order ou index p w] by (simp add: e)
  show "description (fst (processProperty P order ou index p w)) = ?d"
    using processProperty_enhanced[of P order ou index p w] by (simp add: e)
qed

theorem enhancement_skipped_or_passed_through_witness:
  "orElse (draft.description draft_rel) [] = []
   \<and> title (fst (processProperty site [] ''scraped-from-html'' 0 draft_rel w0)) = ''Flat''
   \<and> description (fst (processProperty site [] ''scraped-from-html'' 0 draft_rel w0)) = []
   \<and> enhanceCalls (snd (processProperty site [] ''scraped-from-html'' 0 draft_rel w0)) = 0
   \<and> isl (enhance_prompt site (afterImages site [] ''http://c.test'' 0 draft_c w0)
             ''Studio'' ''Fails to enhance'')
   \<and> title (fst (processProperty site [] ''http://c.test'' 0 draft_c w0)) = ''Studio''
   \<and> description (fst (processProperty site [] ''http://c.test'' 0 draft_c w0)) = ''Fails to enhance''"
proof -
  have d: "orElse (draft.description draft_rel) [] = []" "orElse (draft.title draft_rel) [] = ''Flat''"
    by (simp_all add: draft_rel_def)
  have c: "orElse (draft.title draft_c) [] = ''Studio''"
    "orElse (draft.description draft_c) [] = ''Fails to enhance''"
    by (simp_all add: draft_c_def)
  have f: "isl (enhance_prompt site w' ''Studio'' ''Fails to enhance'')" for w'
    by (simp add: site_def example_enhance_def)
  have z: "enhanceCalls w0 = 0" by (simp add: enhanceCalls_def w0_def)
  from enhancement_skipped_or_passed_through[of draft_rel site "[]" "''scraped-from-html''" 0 w0] d
  have 1: "title (fst (processProperty site [] ''scraped-from-html'' 0 draft_rel w0)) = ''Flat''
   \<and> description (fst (processProperty site [] ''scraped-from-html'' 0 draft_rel w0)) = []
   \<and> enhanceCalls (snd (processProperty site [] ''scraped-from-html'' 0 draft_rel w0)) = 0"
    unfolding d z by simp
  from enhancement_skipped_or_passed_through[of draft_c site "[]" "''http://c.test''" 0 w0] f
  have 2: "title (fst (processProperty site [] ''http://c.test'' 0 draft_c w0)) = ''Studio''
   \<and> description (fst (processProperty site [] ''http://c.test'' 0 draft_c w0)) = ''Fails to enhance''"
    unfolding c by simp
  show ?thesis using d(1) 1 f 2 by blast
qed

section \<open>C6: when the download of an image fails\<close>

lemma persistImage_succeeds:
  assumes "\<And>w' dir. fs_mkdir P w' dir = Inr ()" and "\<And>w' file bytes. fs_writeFile P w' file bytes = Inr ()"
  shows "\<not> isl (fst (persistImage P pid i ext buf w))"
  by (simp add: persistImage_def Let_def assms)

lemma fileExtensionFor_succeeds:
  assumes "\<not> isl (new_URL P u None)"
  shows "\<not> isl (fileExtensionFor P u ct)"
  using assms
  by (auto simp: fileExtensionFor_def extensionOfUrl_def Let_def split: option.splits sum.splits)

text \<open>
  Claim C6, as the source has it. For a response that was fetched and whose body can be
  read, with a resolved URL that parses again and a file system that accepts the
  directory and the file, the \<open>try\<close> block throws exactly when the response is not 2xx
  or the payload has zero length. The content type plays no part: whether the header is
  missing, an image type or any other type, the payload is stored.
\<close>

theorem image_step_fails_iff:
  assumes "fetch P w u (image_headers (imageReferer p ou)) = Inr resp"
    and "arrayBuffer resp = Inr payload"
    and "\<not> isl (new_URL P u None)"
    and "\<forall>w' dir. fs_mkdir P w' dir = Inr ()"
    and "\<forall>w' file bytes. fs_writeFile P w' file bytes = Inr ()"
  shows "isl (fst (fetchAndPersist P p ou pid i u w)) \<longleftrightarrow> \<not> ok resp \<or> length payload = 0"
proof -
  obtain ext where e: "fileExtensionFor P u (content_type resp) = Inr ext"
    using fileExtensionFor_succeeds[OF assms(3), of "content_type resp"]
    by (cases "fileExtensionFor P u (content_type resp)") auto
  have s: "\<not> isl (fst (persistImage P pid i ext payload w'))" for w'
    using assms(4,5) by (intro persistImage_succeeds) auto
  show ?thesis
    using s by (simp add: fetchAndPersist_def Let_def assms(1,2) e)
qed

theorem image_step_fails_iff_witness:
  "fetch site w0 ''https://x.com/doc'' (image_headers (imageReferer draft_a ''http://a.test''))
     = Inr \<lparr>ok = True, status = 200, statusText = ''OK'', content_type = Some ''text/html'',
            responseText = Inr ''<html>'', arrayBuffer = Inr ''<html>''\<rparr>
   \<and> \<not> isl (new_URL site ''https://x.com/doc'' None)
   \<and> (\<forall>w' dir. fs_mkdir site w' dir = Inr ())
   \<and> (\<forall>w' file bytes. fs_writeFile site w' file bytes = Inr ())
   \<and> \<not> isl (fst (fetchAndPersist site draft_a ''http://a.test'' ''prop-1-0'' 0 ''https://x.com/doc'' w0))
   \<and> fetch site w0 ''https://x.com/b.jpg'' (image_headers (imageReferer draft_a ''http://a.test''))
     = Inr \<lparr>ok = False, status = 404, statusText = ''Not Found'', content_type = None,
            responseText = Inr [], arrayBuffer = Inr []\<rparr>
   \<and> \<not> isl (new_URL site ''https://x.com/b.jpg'' None)
   \<and> isl (fst (fetchAndPersist site draft_a ''http://a.test'' ''prop-1-0'' 1 ''https://x.com/b.jpg'' w0))"
proof -
  let ?doc = "\<lparr>ok = True, status = 200, statusText = ''OK'', content_type = Some ''text/html'',
            responseText = Inr ''<html>'', arrayBuffer = Inr ''<html>''\<rparr>"
  let ?missing = "\<lparr>ok = False, status = 404, statusText = ''Not Found'', content_type = None,
            responseText = Inr [], arrayBuffer = Inr []\<rparr>"
  have f1: "fetch site w0 ''https://x.com/doc'' (image_headers (imageReferer draft_a ''http://a.test'')) = Inr ?doc"
    by (simp add: site_def example_fetch_def)
  have f2: "fetch site w0 ''https://x.com/b.jpg'' (image_headers (imageReferer draft_a ''http://a.test'')) = Inr ?missing"
    by (simp add: site_def example_fetch_def)
  have b1: "arrayBuffer ?doc = Inr ''<html>''" and b2: "arrayBuffer ?missing = Inr []" by simp_all
  have u1: "\<not> isl (new_URL site ''https://x.com/doc'' None)"
    by (simp add: site_def example_URL_def url_table_def)
  have u2: "\<not> isl (new_URL site ''https://x.com/b.jpg'' None)"
    by (simp add: site_def example_URL_def url_table_def)
  have m: "\<forall>w' dir. fs_mkdir site w' dir = Inr ()" by (simp add: site_def)
  have wr: "\<forall>w' file bytes. fs_writeFile site w' file bytes = Inr ()" by (simp add: site_def)
  have 1: "\<not> isl (fst (fetchAndPersist site draft_a ''http://a.test'' ''prop-1-0'' 0 ''https://x.com/doc'' w0))"
    using image_step_fails_iff[OF f1 b1 u1 m wr, of "''prop-1-0''" 0] by simp
  have 2: "isl (fst (fetchAndPersist site draft_a ''http://a.test'' ''prop-1-0'' 1 ''https://x.com/b.jpg'' w0))"
    using image_step_fails_iff[OF f2 b2 u2 m wr, of "''prop-1-0''" 1] by simp
  show ?thesis using f1 u1 m wr 1 f2 u2 2 by blast
qed

text \<open>
  Claim C6 as stated says that a content type that is present and not \<open>image/*\<close> makes
  the step fail. The source only warns and goes on: a 200 response of type \<open>text/html\<close>
  with a non-empty body is stored, under the extension guessed from the URL.
\<close>

theorem non_image_content_type_accepted_counterexample:
  "fetch site w0 ''https://x.com/doc'' (image_headers (imageReferer draft_a ''http://a.test''))
     = Inr \<lparr>ok = True, status = 200, statusText = ''OK'', content_type = Some ''text/html'',
            responseText = Inr ''<html>'', arrayBuffer = Inr ''<html>''\<rparr>
   \<and> \<not> startsWith ''text/html'' ''image/''
   \<and> fst (fetchAndPersist site draft_a ''http://a.test'' ''prop-1-0'' 0 ''https://x.com/doc'' w0)
       = Inr ''/uploads/properties/prop-1-0/1702_0.jpg''"
proof -
  have "fetch site w0 ''https://x.com/doc'' (image_headers (imageReferer draft_a ''http://a.test''))
     = Inr \<lparr>ok = True, status = 200, statusText = ''OK'', content_type = Some ''text/html'',
            responseText = Inr ''<html>'', arrayBuffer = Inr ''<html>''\<rparr>"
    by (simp add: site_def example_fetch_def)
  moreover have "\<not> startsWith ''text/html'' ''image/''"
    by (simp add: startsWith_def)
  moreover have "fst (fetchAndPersist site draft_a ''http://a.test'' ''prop-1-0'' 0 ''https://x.com/doc'' w0)
       = Inr ''/uploads/properties/prop-1-0/1702_0.jpg''"
    by code_simp
  ultimately show ?thesis by blast
qed

section \<open>C1: a bulk run isolates the failures\<close>













end
